theory Spec2Isabelle
  imports Complex_Main "HOL-Library.Word"
begin

section \<open>Two small MCP tool servers: screenshots and an employee table\<close>

text \<open>
  The repository holds three programs.
  \<^item> \<^verbatim>\<open>src/employee.ts\<close>: the employee server written with the SDK's \<^verbatim>\<open>McpServer\<close>;
    each tool is registered with a zod schema and a handler.
  \<^item> \<^verbatim>\<open>src/screenshoot.ts\<close>, first document: the screenshot server (\<^verbatim>\<open>McpServer\<close>, one tool).
  \<^item> \<^verbatim>\<open>src/screenshoot.ts\<close>, second document: the employee server written with the SDK's
    low-level \<^verbatim>\<open>Server\<close>; one \<^verbatim>\<open>CallToolRequestSchema\<close> handler switches on the tool name.

  Below, the definitions named \<open>mcp_...\<close> embed \<^verbatim>\<open>src/employee.ts\<close> and those named
  \<open>raw_...\<close> embed the \<^verbatim>\<open>Server\<close> program of \<^verbatim>\<open>src/screenshoot.ts\<close>.

  Conventions of the embedding.
  \<^item> A JS number is a \<open>real\<close>: the claims compare, test for zero and average numbers,
    and the rounding of IEEE doubles is left out.
  \<^item> A string is a byte string. A character of a source literal that is not ASCII is
    written \<open>{uXXXX}\<close>, its code point in hexadecimal, so that \<open>{u793E}{u54E1}\<close> is the
    two-character word that starts the reply of \<^verbatim>\<open>add_employee\<close>.
  \<^item> The arguments object of a call is a record of optional fields. A field that is present
    holds a value of the JSON type that the tool's declared schema gives it; a field that
    is absent is \<open>None\<close> (\<^verbatim>\<open>undefined\<close> in the handler).
  \<^item> What the JS engine and SQLite decide and the source does not (how a number prints,
    what \<^verbatim>\<open>DATE()\<close> returns, today's date) is the record \<open>env\<close>, a parameter of
    every handler.
\<close>

subsection \<open>Values and the employees table\<close>

text \<open>
  The table, from the \<^verbatim>\<open>CREATE TABLE\<close> statement of both employee programs:
  \<^verbatim>\<open>id INTEGER PRIMARY KEY AUTOINCREMENT, name TEXT NOT NULL, department TEXT NOT NULL,
  level TEXT NOT NULL, performance_score REAL NOT NULL, quarterly_rating TEXT NOT NULL,
  bonus REAL NOT NULL, hire_date DATE NOT NULL, manager_id INTEGER\<close>.

  SQLite derives a column's affinity from its declared type. \<^verbatim>\<open>DATE\<close> contains none of
  INT, CHAR, CLOB, TEXT, BLOB, REAL, FLOA, DOUB, so \<^verbatim>\<open>hire_date\<close> has NUMERIC affinity:
  a text that is a well-formed integer or real literal is stored as that number, any
  other text is stored as it is. \<open>dateval\<close> is what the column can hold after an insert
  of a string.
\<close>

datatype dateval = DNum real | DText string

record employee =
  emp_id :: int
  name :: string
  department :: string
  level :: string
  performance_score :: real
  quarterly_rating :: string
  bonus :: real
  hire_date :: dateval
  manager_id :: "real option"

text \<open>
  The statements the programs prepare, each with the parameters it is run with: the
  filters of a search (\<^verbatim>\<open>AND department = ?\<close>, \<^verbatim>\<open>AND level = ?\<close>,
  \<^verbatim>\<open>AND performance_score >= ?\<close>), the assignments of an update
  (\<^verbatim>\<open>performance_score = ?\<close>, \<^verbatim>\<open>quarterly_rating = ?\<close>, \<^verbatim>\<open>bonus = ?\<close>), and for the
  candidates which of the two conditions on \<^verbatim>\<open>hire_date\<close> the program wrote. The
  database keeps the list of the statements it has executed, so that a handler's traffic
  can be counted.
\<close>

datatype cond = DepartmentEq string | LevelEq string | PerformanceGe real

datatype assignment = SetPerformance real | SetRating string | SetBonus real

datatype hire_test = HireDate | DateOfHireDate

datatype statement =
    SelectFiltered "cond list"
  | InsertEmployee
  | StatsOfDepartment string
  | StatsOfAll
  | CandidatesOfDepartment hire_test string
  | CandidatesOfAll hire_test
  | UpdateEmployee "assignment list" "real option"
  | SelectName "real option"
  | SelectTeam real
  | SelectManager real
  | SelectTopManagers

record db =
  rows :: "employee list"
  seq :: int
  executed :: "statement list"

definition exec :: "statement \<Rightarrow> db \<Rightarrow> db" where
  "exec s d = d\<lparr>executed := executed d @ [s]\<rparr>"

record env =
  num_str :: "real \<Rightarrow> string"
  to_fixed2 :: "real \<Rightarrow> string"
  sql_date :: "dateval \<Rightarrow> string option"
  date_now_minus_1_year :: string

text \<open>
  \<open>num_str\<close> is how a template literal prints a number, \<open>to_fixed2\<close> is
  \<^verbatim>\<open>Number.prototype.toFixed(2)\<close>, \<open>sql_date\<close> is SQLite's \<^verbatim>\<open>DATE(x)\<close> on a stored
  value (\<open>None\<close> is NULL) and \<open>date_now_minus_1_year\<close> is the text that
  \<^verbatim>\<open>DATE('now', '-1 year')\<close> evaluates to during the call.
\<close>

datatype error =
    Error string
  | SQLiteError string
  | TypeError string
  | McpError string

type_synonym content_item = "(string \<times> string) list"

type_synonym tool_result = "error + content_item list"

definition text_content :: "string \<Rightarrow> content_item" where
  "text_content t = [(''type'', ''text''), (''text'', t)]"

definition image_content :: "string \<Rightarrow> string \<Rightarrow> content_item" where
  "image_content d m = [(''type'', ''image''), (''data'', d), (''mimeType'', m)]"

record args =
  arg_name :: "string option"
  arg_department :: "string option"
  arg_level :: "string option"
  arg_min_performance :: "real option"
  arg_performance_score :: "real option"
  arg_quarterly_rating :: "string option"
  arg_bonus :: "real option"
  arg_hire_date :: "string option"
  arg_manager_id :: "real option"
  arg_employee_id :: "real option"
  arg_url :: "string option"

definition no_args :: args where
  "no_args = \<lparr>arg_name = None, arg_department = None, arg_level = None,
     arg_min_performance = None, arg_performance_score = None, arg_quarterly_rating = None,
     arg_bonus = None, arg_hire_date = None, arg_manager_id = None, arg_employee_id = None,
     arg_url = None\<rparr>"

subsection \<open>JS helpers\<close>

text \<open>\<^verbatim>\<open>xs.join(sep)\<close>.\<close>

fun join :: "string \<Rightarrow> string list \<Rightarrow> string" where
  "join sep [] = []"
| "join sep [x] = x"
| "join sep (x # y # ys) = x @ sep @ join sep (y # ys)"

text \<open>A template literal prints \<^verbatim>\<open>undefined\<close> for an absent number.\<close>

definition tpl_num :: "env \<Rightarrow> real option \<Rightarrow> string" where
  "tpl_num env x = (case x of None \<Rightarrow> ''undefined'' | Some n \<Rightarrow> num_str env n)"

definition tpl_date :: "env \<Rightarrow> dateval \<Rightarrow> string" where
  "tpl_date env d = (case d of DNum n \<Rightarrow> num_str env n | DText s \<Rightarrow> s)"

text \<open>\<^verbatim>\<open>Math.round\<close>: the nearest integer, halves upwards.\<close>

definition math_round :: "real \<Rightarrow> real" where
  "math_round x = of_int \<lfloor>x + 1 / 2\<rfloor>"

subsection \<open>What SQLite does with the values\<close>

text \<open>
  TEXT compares bytewise (the BINARY collation), a shorter text before its extensions.
\<close>

fun text_le :: "string \<Rightarrow> string \<Rightarrow> bool" where
  "text_le [] ys = True"
| "text_le (x # xs) [] = False"
| "text_le (x # xs) (y # ys) =
     (if (of_char x :: nat) < of_char y then True
      else if x = y then text_le xs ys
      else False)"

text \<open>
  A stored \<^verbatim>\<open>hire_date\<close> against a text: a number sorts before every text.
\<close>

definition dateval_le_text :: "dateval \<Rightarrow> string \<Rightarrow> bool" where
  "dateval_le_text d t = (case d of DNum n \<Rightarrow> True | DText s \<Rightarrow> text_le s t)"

text \<open>
  The well-formed numeric literals of NUMERIC affinity: blanks, a sign, digits, a
  fraction, an exponent, blanks; at least one digit before the exponent, and at least
  one in an exponent that is written.
\<close>

definition is_space :: "char \<Rightarrow> bool" where
  "is_space c = (c \<in> set [CHR '' '', CHR 0x09, CHR 0x0A, CHR 0x0B, CHR 0x0C, CHR 0x0D])"

definition is_digit :: "char \<Rightarrow> bool" where
  "is_digit c = (c \<in> set ''0123456789'')"

definition digits_val :: "string \<Rightarrow> nat" where
  "digits_val ds = foldl (\<lambda>n c. 10 * n + (of_char c - 48)) 0 ds"

fun strip_sign :: "string \<Rightarrow> bool \<times> string" where
  "strip_sign [] = (False, [])"
| "strip_sign (c # cs) =
     (if c = CHR ''-'' then (True, cs)
      else if c = CHR ''+'' then (False, cs)
      else (False, c # cs))"

fun strip_fraction :: "string \<Rightarrow> string \<times> string" where
  "strip_fraction [] = ([], [])"
| "strip_fraction (c # cs) =
     (if c = CHR ''.'' then (takeWhile is_digit cs, dropWhile is_digit cs)
      else ([], c # cs))"

fun strip_exponent :: "string \<Rightarrow> (bool \<times> string) option \<times> string" where
  "strip_exponent [] = (Some (False, ''0''), [])"
| "strip_exponent (c # cs) =
     (if c = CHR ''e'' \<or> c = CHR ''E''
      then (let (neg, r) = strip_sign cs in
            if takeWhile is_digit r = [] then (None, r)
            else (Some (neg, takeWhile is_digit r), dropWhile is_digit r))
      else (Some (False, ''0''), c # cs))"

definition numeric_literal :: "string \<Rightarrow> real option" where
  "numeric_literal s =
     (let (neg, z1) = strip_sign (dropWhile is_space s);
          ip = takeWhile is_digit z1;
          (fp, z2) = strip_fraction (dropWhile is_digit z1);
          (ex, z3) = strip_exponent z2;
          m = real (digits_val (ip @ fp)) / 10 ^ length fp
      in case ex of
           None \<Rightarrow> None
         | Some (eneg, ed) \<Rightarrow>
             if dropWhile is_space z3 = [] \<and> ip @ fp \<noteq> []
             then Some ((if neg then - 1 else 1) *
                        (if eneg then m / 10 ^ digits_val ed else m * 10 ^ digits_val ed))
             else None)"

definition numeric_affinity :: "string \<Rightarrow> dateval" where
  "numeric_affinity s = (case numeric_literal s of Some n \<Rightarrow> DNum n | None \<Rightarrow> DText s)"

text \<open>
  \<^verbatim>\<open>ORDER BY\<close>: the rows in table order, sorted by the given comparison; rows that
  compare equal keep their table order.
\<close>

fun insert_by :: "('a \<Rightarrow> 'a \<Rightarrow> bool) \<Rightarrow> 'a \<Rightarrow> 'a list \<Rightarrow> 'a list" where
  "insert_by le x [] = [x]"
| "insert_by le x (y # ys) = (if le x y then x # y # ys else y # insert_by le x ys)"

definition order_by :: "('a \<Rightarrow> 'a \<Rightarrow> bool) \<Rightarrow> 'a list \<Rightarrow> 'a list" where
  "order_by le xs = foldr (insert_by le) xs []"

definition by_performance_desc :: "employee \<Rightarrow> employee \<Rightarrow> bool" where
  "by_performance_desc a b = (performance_score b \<le> performance_score a)"

definition by_level_desc :: "employee \<Rightarrow> employee \<Rightarrow> bool" where
  "by_level_desc a b = text_le (level b) (level a)"

definition by_level_performance_desc :: "employee \<Rightarrow> employee \<Rightarrow> bool" where
  "by_level_performance_desc a b =
     (if level a = level b then performance_score b \<le> performance_score a
      else text_le (level b) (level a))"

subsection \<open>The statements\<close>

text \<open>
  \<^verbatim>\<open>SELECT * FROM employees WHERE 1=1\<close>, then one \<^verbatim>\<open>AND ...\<close> for each filter that was
  pushed, then \<^verbatim>\<open>ORDER BY performance_score DESC\<close>.
\<close>

fun cond_holds :: "cond \<Rightarrow> employee \<Rightarrow> bool" where
  "cond_holds (DepartmentEq d) e = (department e = d)"
| "cond_holds (LevelEq l) e = (level e = l)"
| "cond_holds (PerformanceGe m) e = (m \<le> performance_score e)"

definition select_filtered :: "cond list \<Rightarrow> db \<Rightarrow> employee list \<times> db" where
  "select_filtered conds d =
     (order_by by_performance_desc
        (filter (\<lambda>e. list_all (\<lambda>c. cond_holds c e) conds) (rows d)),
      exec (SelectFiltered conds) d)"

text \<open>
  \<^verbatim>\<open>INSERT INTO employees (name, ..., manager_id) VALUES (?, ?, ?, ?, ?, ?, ?, ?)\<close>.
  An absent value is bound as NULL, and NULL in one of the seven NOT NULL columns fails
  the statement. AUTOINCREMENT gives the new row the id after the largest id the table
  has ever held.
\<close>

definition next_rowid :: "db \<Rightarrow> int" where
  "next_rowid d = max (seq d) (foldr max (map emp_id (rows d)) 0) + 1"

definition insert_employee ::
  "string option \<Rightarrow> string option \<Rightarrow> string option \<Rightarrow> real option \<Rightarrow> string option \<Rightarrow>
   real option \<Rightarrow> string option \<Rightarrow> real option \<Rightarrow> db \<Rightarrow> (error + int) \<times> db" where
  "insert_employee n dep l p q b h m d =
     (case (n, dep, l, p, q, b, h) of
        (Some n', Some dep', Some l', Some p', Some q', Some b', Some h') \<Rightarrow>
          (Inr (next_rowid d),
           exec InsertEmployee
             (d\<lparr>rows := rows d @
                   [\<lparr>emp_id = next_rowid d, name = n', department = dep', level = l',
                     performance_score = p', quarterly_rating = q', bonus = b',
                     hire_date = numeric_affinity h', manager_id = m\<rparr>],
                seq := next_rowid d\<rparr>))
      | _ \<Rightarrow> (Inl (SQLiteError ''NOT NULL constraint failed''), exec InsertEmployee d))"

text \<open>
  \<^verbatim>\<open>SELECT department, COUNT(*) as employee_count, AVG(performance_score) as avg_performance,
  AVG(bonus) as avg_bonus, MIN(performance_score) as min_performance,
  MAX(performance_score) as max_performance FROM employees\<close>, then either
  \<^verbatim>\<open>WHERE department = ? GROUP BY department\<close> or
  \<^verbatim>\<open>GROUP BY department ORDER BY avg_performance DESC\<close>.
\<close>

record dept_stats =
  stats_department :: string
  employee_count :: nat
  avg_performance :: real
  avg_bonus :: real
  min_performance :: real
  max_performance :: real

definition avg :: "real list \<Rightarrow> real" where
  "avg xs = sum_list xs / real (length xs)"

fun list_min :: "real list \<Rightarrow> real" where
  "list_min [] = 0"
| "list_min [x] = x"
| "list_min (x # y # ys) = min x (list_min (y # ys))"

fun list_max :: "real list \<Rightarrow> real" where
  "list_max [] = 0"
| "list_max [x] = x"
| "list_max (x # y # ys) = max x (list_max (y # ys))"

definition group_stats :: "string \<Rightarrow> employee list \<Rightarrow> dept_stats" where
  "group_stats dep g =
     \<lparr>stats_department = dep, employee_count = length g,
      avg_performance = avg (map performance_score g), avg_bonus = avg (map bonus g),
      min_performance = list_min (map performance_score g),
      max_performance = list_max (map performance_score g)\<rparr>"

definition stats_of_department :: "string \<Rightarrow> db \<Rightarrow> dept_stats option \<times> db" where
  "stats_of_department dep d =
     (let g = filter (\<lambda>e. department e = dep) (rows d)
      in (if g = [] then None else Some (group_stats dep g), exec (StatsOfDepartment dep) d))"

definition stats_of_all :: "db \<Rightarrow> dept_stats list \<times> db" where
  "stats_of_all d =
     (order_by (\<lambda>a b. avg_performance b \<le> avg_performance a)
        (map (\<lambda>dep. group_stats dep (filter (\<lambda>e. department e = dep) (rows d)))
           (order_by text_le (remdups (map department (rows d))))),
      exec StatsOfAll d)"

text \<open>
  The candidates: \<^verbatim>\<open>SELECT * FROM employees WHERE performance_score >= 4.0 AND ...\<close>
  with the program's condition on \<^verbatim>\<open>hire_date\<close>, then either \<^verbatim>\<open>AND department = ?\<close> or
  \<^verbatim>\<open>ORDER BY performance_score DESC\<close>. The condition is
  \<^verbatim>\<open>hire_date <= DATE('now', '-1 year')\<close> in \<^verbatim>\<open>src/employee.ts\<close>, the stored value against
  a text, and \<^verbatim>\<open>DATE(hire_date) <= DATE('now', '-1 year')\<close> in \<^verbatim>\<open>src/screenshoot.ts\<close>, two
  texts, which holds for no row where \<^verbatim>\<open>DATE(hire_date)\<close> is NULL.
\<close>

definition hired_before :: "env \<Rightarrow> employee \<Rightarrow> bool" where
  "hired_before env e = dateval_le_text (hire_date e) (date_now_minus_1_year env)"

definition date_hired_before :: "env \<Rightarrow> employee \<Rightarrow> bool" where
  "date_hired_before env e =
     (case sql_date env (hire_date e) of
        None \<Rightarrow> False
      | Some t \<Rightarrow> text_le t (date_now_minus_1_year env))"

fun hired :: "env \<Rightarrow> hire_test \<Rightarrow> employee \<Rightarrow> bool" where
  "hired env HireDate e = hired_before env e"
| "hired env DateOfHireDate e = date_hired_before env e"

definition candidates_of_department ::
  "env \<Rightarrow> hire_test \<Rightarrow> string \<Rightarrow> db \<Rightarrow> employee list \<times> db" where
  "candidates_of_department env t dep d =
     (filter (\<lambda>e. 4 \<le> performance_score e \<and> hired env t e \<and> department e = dep) (rows d),
      exec (CandidatesOfDepartment t dep) d)"

definition candidates_of_all :: "env \<Rightarrow> hire_test \<Rightarrow> db \<Rightarrow> employee list \<times> db" where
  "candidates_of_all env t d =
     (order_by by_performance_desc
        (filter (\<lambda>e. 4 \<le> performance_score e \<and> hired env t e) (rows d)),
      exec (CandidatesOfAll t) d)"

text \<open>
  \<^verbatim>\<open>UPDATE employees SET ... WHERE id = ?\<close> with the assignments that were pushed;
  it returns the number of rows it matched. An absent id is bound as NULL and matches
  no row.
\<close>

fun assign :: "assignment \<Rightarrow> employee \<Rightarrow> employee" where
  "assign (SetPerformance p) e = e\<lparr>performance_score := p\<rparr>"
| "assign (SetRating q) e = e\<lparr>quarterly_rating := q\<rparr>"
| "assign (SetBonus b) e = e\<lparr>bonus := b\<rparr>"

definition id_is :: "real option \<Rightarrow> employee \<Rightarrow> bool" where
  "id_is i e = (i = Some (of_int (emp_id e)))"

definition update_employees :: "assignment list \<Rightarrow> real option \<Rightarrow> db \<Rightarrow> nat \<times> db" where
  "update_employees ups i d =
     (length (filter (id_is i) (rows d)),
      exec (UpdateEmployee ups i)
        (d\<lparr>rows := map (\<lambda>e. if id_is i e then fold assign ups e else e) (rows d)\<rparr>))"

text \<open>\<^verbatim>\<open>SELECT name FROM employees WHERE id = ?\<close> and \<^verbatim>\<open>.get\<close>: the first row or none.\<close>

definition select_name :: "real option \<Rightarrow> db \<Rightarrow> employee option \<times> db" where
  "select_name i d = (find (id_is i) (rows d), exec (SelectName i) d)"

text \<open>
  \<^verbatim>\<open>SELECT * FROM employees WHERE manager_id = ? ORDER BY level DESC, performance_score DESC\<close>,
  \<^verbatim>\<open>SELECT name, level FROM employees WHERE id = ?\<close> and
  \<^verbatim>\<open>SELECT * FROM employees WHERE manager_id IS NULL ORDER BY level DESC\<close>.
\<close>

definition select_team :: "real \<Rightarrow> db \<Rightarrow> employee list \<times> db" where
  "select_team m d =
     (order_by by_level_performance_desc (filter (\<lambda>e. manager_id e = Some m) (rows d)),
      exec (SelectTeam m) d)"

definition select_manager :: "real \<Rightarrow> db \<Rightarrow> employee option \<times> db" where
  "select_manager m d = (find (id_is (Some m)) (rows d), exec (SelectManager m) d)"

definition select_top_managers :: "db \<Rightarrow> employee list \<times> db" where
  "select_top_managers d =
     (order_by by_level_desc (filter (\<lambda>e. manager_id e = None) (rows d)),
      exec SelectTopManagers d)"

text \<open>\<^verbatim>\<open>xs.map(f)\<close> where \<open>f\<close> queries the database.\<close>

fun map_db :: "('a \<Rightarrow> db \<Rightarrow> 'b \<times> db) \<Rightarrow> 'a list \<Rightarrow> db \<Rightarrow> 'b list \<times> db" where
  "map_db f [] d = ([], d)"
| "map_db f (x # xs) d =
     (let (y, d1) = f x d; (ys, d2) = map_db f xs d1 in (y # ys, d2))"

subsection \<open>The employee server on the low-level Server (src/screenshoot.ts)\<close>

text \<open>
  The cases of the \<^verbatim>\<open>switch (name)\<close> of the \<^verbatim>\<open>CallToolRequestSchema\<close> handler, one
  definition each. \<^verbatim>\<open>(args as any).x\<close> is the field \<open>arg_x\<close>; \<^verbatim>\<open>if (x)\<close> on a string
  is \<open>x \<noteq> []\<close> and on a number \<open>x \<noteq> 0\<close>, and is false when the field is absent.
\<close>

text \<open>The reply texts of the handlers, each the template literal of the source.\<close>

definition raw_employee_entry :: "env \<Rightarrow> employee \<Rightarrow> string" where
  "raw_employee_entry env emp =
     ''ID: '' @ num_str env (of_int (emp_id emp)) @
     ''\<newline>{u6C0F}{u540D}: '' @ name emp @
     ''\<newline>{u90E8}{u7F72}: '' @ department emp @
     ''\<newline>{u7B49}{u7D1A}: '' @ level emp @
     ''\<newline>{u30D1}{u30D5}{u30A9}{u30FC}{u30DE}{u30F3}{u30B9}: '' @
     num_str env (performance_score emp) @
     ''\<newline>{u8A55}{u4FA1}: '' @ quarterly_rating emp @
     ''\<newline>{u30DC}{u30FC}{u30CA}{u30B9}: {u00A5}'' @ num_str env (bonus emp) @
     ''\<newline>{u5165}{u793E}{u65E5}: '' @ tpl_date env (hire_date emp) @
     ''\<newline>''"

definition raw_found_text :: "env \<Rightarrow> employee list \<Rightarrow> string" where
  "raw_found_text env employees =
     num_str env (of_nat (length employees)) @
     ''{u4EBA}{u306E}{u793E}{u54E1}{u304C}{u691C}{u7D22}{u3055}{u308C}{u307E}{u3057}{u305F}:\<newline>\<newline>'' @
     join ''\<newline>'' (map (raw_employee_entry env) employees)"

definition raw_added_text :: "env \<Rightarrow> string option \<Rightarrow> int \<Rightarrow> string" where
  "raw_added_text env n lastInsertRowid =
     ''{u793E}{u54E1} '' @ (case n of Some x \<Rightarrow> x | None \<Rightarrow> ''undefined'') @
     '' {u3092}{u6B63}{u5E38}{u306B}{u8FFD}{u52A0}{u3057}{u307E}{u3057}{u305F}{u3002}ID: '' @
     num_str env (of_int lastInsertRowid)"

definition raw_no_department_text :: "string \<Rightarrow> string" where
  "raw_no_department_text dep =
     ''{u90E8}{u7F72}{u304C}{u898B}{u3064}{u304B}{u308A}{u307E}{u305B}{u3093}: '' @ dep"

definition raw_stats_text :: "env \<Rightarrow> dept_stats \<Rightarrow> string" where
  "raw_stats_text env st =
     stats_department st @
     ''{u90E8}{u7F72}{u7D71}{u8A08}:\<newline>\<newline>{u793E}{u54E1}{u6570}: '' @
     num_str env (of_nat (employee_count st)) @
     ''{u4EBA}\<newline>{u5E73}{u5747}{u30D1}{u30D5}{u30A9}{u30FC}{u30DE}{u30F3}{u30B9}: '' @
     to_fixed2 env (avg_performance st) @
     ''\<newline>{u5E73}{u5747}{u30DC}{u30FC}{u30CA}{u30B9}: {u00A5}'' @
     num_str env (math_round (avg_bonus st)) @
     ''\<newline>{u30D1}{u30D5}{u30A9}{u30FC}{u30DE}{u30F3}{u30B9}{u7BC4}{u56F2}: '' @
     num_str env (min_performance st) @ '' - '' @ num_str env (max_performance st)"

definition raw_all_stats_text :: "env \<Rightarrow> dept_stats list \<Rightarrow> string" where
  "raw_all_stats_text env allStats =
     ''{u5404}{u90E8}{u7F72}{u7D71}{u8A08}:\<newline>\<newline>'' @
     join ''\<newline>\<newline>''
       (map (\<lambda>st.
          ''{u3010}'' @ stats_department st @ ''{u3011}\<newline>{u4EBA}{u6570}: '' @
          num_str env (of_nat (employee_count st)) @
          ''{u4EBA} | {u5E73}{u5747}{u30D1}{u30D5}{u30A9}{u30FC}{u30DE}{u30F3}{u30B9}: '' @
          to_fixed2 env (avg_performance st) @
          '' | {u5E73}{u5747}{u30DC}{u30FC}{u30CA}{u30B9}: {u00A5}'' @
          num_str env (math_round (avg_bonus st)))
        allStats)"

definition raw_candidates_text :: "env \<Rightarrow> string \<Rightarrow> employee list \<Rightarrow> string" where
  "raw_candidates_text env dep candidates =
     dep @ ''{u90E8}{u7F72}{u306E}{u6607}{u9032}{u5019}{u88DC}{u8005} ('' @
     num_str env (of_nat (length candidates)) @ ''{u4EBA}):\<newline>\<newline>'' @
     join ''\<newline>''
       (map (\<lambda>emp.
          name emp @ '' | '' @ level emp @
          '' | {u30D1}{u30D5}{u30A9}{u30FC}{u30DE}{u30F3}{u30B9}: '' @
          num_str env (performance_score emp) @
          '' | {u5165}{u793E}{u65E5}: '' @ tpl_date env (hire_date emp))
        candidates)"

definition raw_all_candidates_text :: "env \<Rightarrow> employee list \<Rightarrow> string" where
  "raw_all_candidates_text env candidates =
     ''{u5168}{u793E}{u6607}{u9032}{u5019}{u88DC}{u8005} ('' @
     num_str env (of_nat (length candidates)) @ ''{u4EBA}):\<newline>\<newline>'' @
     join ''\<newline>''
       (map (\<lambda>emp.
          name emp @ '' | '' @ department emp @ '' | '' @ level emp @
          '' | {u30D1}{u30D5}{u30A9}{u30FC}{u30DE}{u30F3}{u30B9}: '' @
          num_str env (performance_score emp))
        candidates)"

definition raw_no_fields_text :: string where
  "raw_no_fields_text =
     ''{u66F4}{u65B0}{u3059}{u308B}{u30D5}{u30A3}{u30FC}{u30EB}{u30C9}{u304C}{u6307}{u5B9A}{u3055}{u308C}{u3066}{u3044}{u307E}{u305B}{u3093}''"

definition raw_no_employee_text :: "env \<Rightarrow> real option \<Rightarrow> string" where
  "raw_no_employee_text env employee_id =
     ''ID '' @ tpl_num env employee_id @
     '' {u306E}{u793E}{u54E1}{u304C}{u898B}{u3064}{u304B}{u308A}{u307E}{u305B}{u3093}''"

definition raw_updated_text :: "employee \<Rightarrow> string" where
  "raw_updated_text emp =
     ''{u793E}{u54E1} '' @ name emp @
     '' {u306E}{u30D1}{u30D5}{u30A9}{u30FC}{u30DE}{u30F3}{u30B9}{u60C5}{u5831}{u3092}{u6B63}{u5E38}{u306B}{u66F4}{u65B0}{u3057}{u307E}{u3057}{u305F}''"

definition raw_no_manager_text :: "env \<Rightarrow> real \<Rightarrow> string" where
  "raw_no_manager_text env m =
     ''ID '' @ num_str env m @
     '' {u306E}{u30DE}{u30CD}{u30FC}{u30B8}{u30E3}{u30FC}{u304C}{u898B}{u3064}{u304B}{u308A}{u307E}{u305B}{u3093}''"

definition raw_team_lines :: "env \<Rightarrow> employee list \<Rightarrow> string" where
  "raw_team_lines env team =
     join ''\<newline>''
       (map (\<lambda>emp.
          ''  {u251C}{u2500} '' @ name emp @ '' | '' @ level emp @
          '' | {u30D1}{u30D5}{u30A9}{u30FC}{u30DE}{u30F3}{u30B9}: '' @
          num_str env (performance_score emp))
        team)"

definition raw_team_text :: "env \<Rightarrow> employee \<Rightarrow> employee list \<Rightarrow> string" where
  "raw_team_text env mgr team =
     name mgr @ '' ('' @ level mgr @ '') {u306E}{u30C1}{u30FC}{u30E0} ('' @
     num_str env (of_nat (length team)) @ ''{u4EBA}):\<newline>\<newline>'' @
     raw_team_lines env team"

definition raw_manager_block :: "env \<Rightarrow> employee \<Rightarrow> employee list \<Rightarrow> string" where
  "raw_manager_block env mgr team =
     name mgr @ '' ('' @ level mgr @ '') - '' @ department mgr @ ''\<newline>'' @
     raw_team_lines env team"

definition raw_hierarchy_text :: "string list \<Rightarrow> string" where
  "raw_hierarchy_text hierarchy =
     ''{u30C1}{u30FC}{u30E0}{u968E}{u5C64}{u69CB}{u9020}:\<newline>\<newline>'' @
     join ''\<newline>\<newline>'' hierarchy"

text \<open>The handlers.\<close>

definition raw_query_employees :: "env \<Rightarrow> args \<Rightarrow> db \<Rightarrow> tool_result \<times> db" where
  "raw_query_employees env a d =
     (let params = [];
          params = (case arg_department a of
                      Some dep \<Rightarrow> if dep \<noteq> [] then params @ [DepartmentEq dep] else params
                    | None \<Rightarrow> params);
          params = (case arg_level a of
                      Some l \<Rightarrow> if l \<noteq> [] then params @ [LevelEq l] else params
                    | None \<Rightarrow> params);
          params = (case arg_min_performance a of
                      Some m \<Rightarrow> if m \<noteq> 0 then params @ [PerformanceGe m] else params
                    | None \<Rightarrow> params);
          (employees, d1) = select_filtered params d
      in (Inr [text_content (raw_found_text env employees)], d1))"

definition raw_add_employee :: "env \<Rightarrow> args \<Rightarrow> db \<Rightarrow> tool_result \<times> db" where
  "raw_add_employee env a d =
     (case insert_employee (arg_name a) (arg_department a) (arg_level a)
             (arg_performance_score a) (arg_quarterly_rating a) (arg_bonus a)
             (arg_hire_date a)
             (case arg_manager_id a of
                Some m \<Rightarrow> if m \<noteq> 0 then Some m else None
              | None \<Rightarrow> None)
             d of
        (Inl err, d1) \<Rightarrow> (Inl err, d1)
      | (Inr lastInsertRowid, d1) \<Rightarrow>
          (Inr [text_content (raw_added_text env (arg_name a) lastInsertRowid)], d1))"

definition raw_department_stats :: "env \<Rightarrow> args \<Rightarrow> db \<Rightarrow> tool_result \<times> db" where
  "raw_department_stats env a d =
     (if (case arg_department a of Some dep \<Rightarrow> dep \<noteq> [] | None \<Rightarrow> False)
      then
        (let dep = (case arg_department a of Some x \<Rightarrow> x | None \<Rightarrow> []);
             (stats, d1) = stats_of_department dep d
         in case stats of
              None \<Rightarrow> (Inr [text_content (raw_no_department_text dep)], d1)
            | Some st \<Rightarrow> (Inr [text_content (raw_stats_text env st)], d1))
      else
        (let (allStats, d1) = stats_of_all d
         in (Inr [text_content (raw_all_stats_text env allStats)], d1)))"

definition raw_promotion_candidates :: "env \<Rightarrow> args \<Rightarrow> db \<Rightarrow> tool_result \<times> db" where
  "raw_promotion_candidates env a d =
     (if (case arg_department a of Some dep \<Rightarrow> dep \<noteq> [] | None \<Rightarrow> False)
      then
        (let dep = (case arg_department a of Some x \<Rightarrow> x | None \<Rightarrow> []);
             (candidates, d1) = candidates_of_department env DateOfHireDate dep d
         in (Inr [text_content (raw_candidates_text env dep candidates)], d1))
      else
        (let (candidates, d1) = candidates_of_all env DateOfHireDate d
         in (Inr [text_content (raw_all_candidates_text env candidates)], d1)))"

definition raw_update_performance :: "env \<Rightarrow> args \<Rightarrow> db \<Rightarrow> tool_result \<times> db" where
  "raw_update_performance env a d =
     (let updates = [];
          updates = (case arg_performance_score a of
                       Some p \<Rightarrow> updates @ [SetPerformance p]
                     | None \<Rightarrow> updates);
          updates = (case arg_quarterly_rating a of
                       Some q \<Rightarrow> if q \<noteq> [] then updates @ [SetRating q] else updates
                     | None \<Rightarrow> updates);
          updates = (case arg_bonus a of
                       Some b \<Rightarrow> updates @ [SetBonus b]
                     | None \<Rightarrow> updates)
      in if length updates = 0
         then (Inr [text_content raw_no_fields_text], d)
         else
           (let (changes, d1) = update_employees updates (arg_employee_id a) d
            in if changes = 0
               then (Inr [text_content (raw_no_employee_text env (arg_employee_id a))], d1)
               else
                 (let (employee, d2) = select_name (arg_employee_id a) d1
                  in case employee of
                       None \<Rightarrow> (Inl (TypeError ''employee is undefined''), d2)
                     | Some emp \<Rightarrow> (Inr [text_content (raw_updated_text emp)], d2))))"

definition raw_get_team_hierarchy :: "env \<Rightarrow> args \<Rightarrow> db \<Rightarrow> tool_result \<times> db" where
  "raw_get_team_hierarchy env a d =
     (if (case arg_manager_id a of Some m \<Rightarrow> m \<noteq> 0 | None \<Rightarrow> False)
      then
        (let m = (case arg_manager_id a of Some x \<Rightarrow> x | None \<Rightarrow> 0);
             (team, d1) = select_team m d;
             (manager, d2) = select_manager m d1
         in case manager of
              None \<Rightarrow> (Inr [text_content (raw_no_manager_text env m)], d2)
            | Some mgr \<Rightarrow> (Inr [text_content (raw_team_text env mgr team)], d2))
      else
        (let (topManagers, d1) = select_top_managers d;
             (hierarchy, d2) =
               map_db (\<lambda>mgr dm.
                  (let (team, dn) = select_team (of_int (emp_id mgr)) dm
                   in (raw_manager_block env mgr team, dn)))
                 topManagers d1
         in (Inr [text_content (raw_hierarchy_text hierarchy)], d2)))"

text \<open>
  The handler itself: the guard on the arguments, then the switch.
\<close>

definition raw_call_tool :: "env \<Rightarrow> string \<Rightarrow> args option \<Rightarrow> db \<Rightarrow> tool_result \<times> db" where
  "raw_call_tool env nm ao d =
     (case ao of
        None \<Rightarrow> (Inl (Error ''Missing arguments''), d)
      | Some a \<Rightarrow>
          if nm = ''query_employees'' then raw_query_employees env a d
          else if nm = ''add_employee'' then raw_add_employee env a d
          else if nm = ''department_stats'' then raw_department_stats env a d
          else if nm = ''promotion_candidates'' then raw_promotion_candidates env a d
          else if nm = ''update_performance'' then raw_update_performance env a d
          else if nm = ''get_team_hierarchy'' then raw_get_team_hierarchy env a d
          else (Inl (Error (''{u4E0D}{u660E}{u306A}{u30C4}{u30FC}{u30EB}: '' @ nm)), d))"

subsection \<open>The employee server on McpServer (src/employee.ts)\<close>

text \<open>
  The handlers of the six \<^verbatim>\<open>server.tool\<close> registrations. A handler receives the fields
  its schema names.
\<close>

text \<open>The reply texts of the handlers, each the template literal of the source.\<close>

definition mcp_employee_entry :: "env \<Rightarrow> employee \<Rightarrow> string" where
  "mcp_employee_entry env emp =
     ''ID: '' @ num_str env (of_int (emp_id emp)) @
     ''\<newline>{u6C0F}{u540D}: '' @ name emp @
     ''\<newline>{u90E8}{u7F72}: '' @ department emp @
     ''\<newline>{u7B49}{u7D1A}: '' @ level emp @
     ''\<newline>{u30D1}{u30D5}{u30A9}{u30FC}{u30DE}{u30F3}{u30B9}: '' @
     num_str env (performance_score emp) @
     ''\<newline>{u8A55}{u4FA1}: '' @ quarterly_rating emp @
     ''\<newline>{u30DC}{u30FC}{u30CA}{u30B9}: {u00A5}'' @ num_str env (bonus emp) @
     ''\<newline>{u5165}{u793E}{u65E5}: '' @ tpl_date env (hire_date emp) @
     ''\<newline>''"

definition mcp_found_text :: "env \<Rightarrow> employee list \<Rightarrow> string" where
  "mcp_found_text env employees =
     num_str env (of_nat (length employees)) @
     ''{u4EBA}{u306E}{u793E}{u54E1}{u304C}{u691C}{u7D22}{u3055}{u308C}{u307E}{u3057}{u305F}:\<newline>\<newline>'' @
     join ''\<newline>'' (map (mcp_employee_entry env) employees)"

definition mcp_added_text :: "env \<Rightarrow> string option \<Rightarrow> int \<Rightarrow> string" where
  "mcp_added_text env n lastInsertRowid =
     ''{u793E}{u54E1} '' @ (case n of Some x \<Rightarrow> x | None \<Rightarrow> ''undefined'') @
     '' {u3092}{u6B63}{u5E38}{u306B}{u8FFD}{u52A0}{u3057}{u307E}{u3057}{u305F}{u3002}ID: '' @
     num_str env (of_int lastInsertRowid)"

definition mcp_no_department_text :: "string \<Rightarrow> string" where
  "mcp_no_department_text dep =
     ''{u90E8}{u7F72}{u304C}{u898B}{u3064}{u304B}{u308A}{u307E}{u305B}{u3093}: '' @ dep"

definition mcp_stats_text :: "env \<Rightarrow> dept_stats \<Rightarrow> string" where
  "mcp_stats_text env st =
     stats_department st @
     ''{u90E8}{u7F72}{u7D71}{u8A08}:\<newline>\<newline>{u793E}{u54E1}{u6570}: '' @
     num_str env (of_nat (employee_count st)) @
     ''{u4EBA}\<newline>{u5E73}{u5747}{u30D1}{u30D5}{u30A9}{u30FC}{u30DE}{u30F3}{u30B9}: '' @
     to_fixed2 env (avg_performance st) @
     ''\<newline>{u5E73}{u5747}{u30DC}{u30FC}{u30CA}{u30B9}: {u00A5}'' @
     num_str env (math_round (avg_bonus st)) @
     ''\<newline>{u30D1}{u30D5}{u30A9}{u30FC}{u30DE}{u30F3}{u30B9}{u7BC4}{u56F2}: '' @
     num_str env (min_performance st) @ '' - '' @ num_str env (max_performance st)"

definition mcp_all_stats_text :: "env \<Rightarrow> dept_stats list \<Rightarrow> string" where
  "mcp_all_stats_text env allStats =
     ''{u5404}{u90E8}{u7F72}{u7D71}{u8A08}:\<newline>\<newline>'' @
     join ''\<newline>\<newline>''
       (map (\<lambda>st.
          ''{u3010}'' @ stats_department st @ ''{u3011}\<newline>{u4EBA}{u6570}: '' @
          num_str env (of_nat (employee_count st)) @
          ''{u4EBA} | {u5E73}{u5747}{u30D1}{u30D5}{u30A9}{u30FC}{u30DE}{u30F3}{u30B9}: '' @
          to_fixed2 env (avg_performance st) @
          '' | {u5E73}{u5747}{u30DC}{u30FC}{u30CA}{u30B9}: {u00A5}'' @
          num_str env (math_round (avg_bonus st)))
        allStats)"

definition mcp_candidates_text :: "env \<Rightarrow> string \<Rightarrow> employee list \<Rightarrow> string" where
  "mcp_candidates_text env dep candidates =
     dep @ ''{u90E8}{u7F72}{u306E}{u6607}{u9032}{u5019}{u88DC}{u8005} ('' @
     num_str env (of_nat (length candidates)) @ ''{u4EBA}):\<newline>\<newline>'' @
     join ''\<newline>''
       (map (\<lambda>emp.
          name emp @ '' | '' @ level emp @
          '' | {u30D1}{u30D5}{u30A9}{u30FC}{u30DE}{u30F3}{u30B9}: '' @
          num_str env (performance_score emp) @
          '' | {u5165}{u793E}{u65E5}: '' @ tpl_date env (hire_date emp))
        candidates)"

definition mcp_all_candidates_text :: "env \<Rightarrow> employee list \<Rightarrow> string" where
  "mcp_all_candidates_text env candidates =
     ''{u5168}{u793E}{u6607}{u9032}{u5019}{u88DC}{u8005} ('' @
     num_str env (of_nat (length candidates)) @ ''{u4EBA}):\<newline>\<newline>'' @
     join ''\<newline>''
       (map (\<lambda>emp.
          name emp @ '' | '' @ department emp @ '' | '' @ level emp @
          '' | {u30D1}{u30D5}{u30A9}{u30FC}{u30DE}{u30F3}{u30B9}: '' @
          num_str env (performance_score emp))
        candidates)"

definition mcp_no_fields_text :: string where
  "mcp_no_fields_text =
     ''{u66F4}{u65B0}{u3059}{u308B}{u30D5}{u30A3}{u30FC}{u30EB}{u30C9}{u304C}{u6307}{u5B9A}{u3055}{u308C}{u3066}{u3044}{u307E}{u305B}{u3093}''"

definition mcp_no_employee_text :: "env \<Rightarrow> real option \<Rightarrow> string" where
  "mcp_no_employee_text env employee_id =
     ''ID '' @ tpl_num env employee_id @
     '' {u306E}{u793E}{u54E1}{u304C}{u898B}{u3064}{u304B}{u308A}{u307E}{u305B}{u3093}''"

definition mcp_updated_text :: "employee \<Rightarrow> string" where
  "mcp_updated_text emp =
     ''{u793E}{u54E1} '' @ name emp @
     '' {u306E}{u30D1}{u30D5}{u30A9}{u30FC}{u30DE}{u30F3}{u30B9}{u60C5}{u5831}{u3092}{u6B63}{u5E38}{u306B}{u66F4}{u65B0}{u3057}{u307E}{u3057}{u305F}''"

definition mcp_no_manager_text :: "env \<Rightarrow> real \<Rightarrow> string" where
  "mcp_no_manager_text env m =
     ''ID '' @ num_str env m @
     '' {u306E}{u30DE}{u30CD}{u30FC}{u30B8}{u30E3}{u30FC}{u304C}{u898B}{u3064}{u304B}{u308A}{u307E}{u305B}{u3093}''"

definition mcp_team_lines :: "env \<Rightarrow> employee list \<Rightarrow> string" where
  "mcp_team_lines env team =
     join ''\<newline>''
       (map (\<lambda>emp.
          ''  {u251C}{u2500} '' @ name emp @ '' | '' @ level emp @
          '' | {u30D1}{u30D5}{u30A9}{u30FC}{u30DE}{u30F3}{u30B9}: '' @
          num_str env (performance_score emp))
        team)"

definition mcp_team_text :: "env \<Rightarrow> employee \<Rightarrow> employee list \<Rightarrow> string" where
  "mcp_team_text env mgr team =
     name mgr @ '' ('' @ level mgr @ '') {u306E}{u30C1}{u30FC}{u30E0} ('' @
     num_str env (of_nat (length team)) @ ''{u4EBA}):\<newline>\<newline>'' @
     mcp_team_lines env team"

definition mcp_manager_block :: "env \<Rightarrow> employee \<Rightarrow> employee list \<Rightarrow> string" where
  "mcp_manager_block env mgr team =
     name mgr @ '' ('' @ level mgr @ '') - '' @ department mgr @ ''\<newline>'' @
     mcp_team_lines env team"

definition mcp_hierarchy_text :: "string list \<Rightarrow> string" where
  "mcp_hierarchy_text hierarchy =
     ''{u30C1}{u30FC}{u30E0}{u968E}{u5C64}{u69CB}{u9020}:\<newline>\<newline>'' @
     join ''\<newline>\<newline>'' hierarchy"

text \<open>The handlers.\<close>

definition mcp_query_employees :: "env \<Rightarrow> args \<Rightarrow> db \<Rightarrow> tool_result \<times> db" where
  "mcp_query_employees env a d =
     (let params = [];
          params = (case arg_department a of
                      Some dep \<Rightarrow> if dep \<noteq> [] then params @ [DepartmentEq dep] else params
                    | None \<Rightarrow> params);
          params = (case arg_level a of
                      Some l \<Rightarrow> if l \<noteq> [] then params @ [LevelEq l] else params
                    | None \<Rightarrow> params);
          params = (case arg_min_performance a of
                      Some m \<Rightarrow> if m \<noteq> 0 then params @ [PerformanceGe m] else params
                    | None \<Rightarrow> params);
          (employees, d1) = select_filtered params d
      in (Inr [text_content (mcp_found_text env employees)], d1))"

definition mcp_add_employee :: "env \<Rightarrow> args \<Rightarrow> db \<Rightarrow> tool_result \<times> db" where
  "mcp_add_employee env a d =
     (case insert_employee (arg_name a) (arg_department a) (arg_level a)
             (arg_performance_score a) (arg_quarterly_rating a) (arg_bonus a)
             (arg_hire_date a)
             (case arg_manager_id a of
                Some m \<Rightarrow> if m \<noteq> 0 then Some m else None
              | None \<Rightarrow> None)
             d of
        (Inl err, d1) \<Rightarrow> (Inl err, d1)
      | (Inr lastInsertRowid, d1) \<Rightarrow>
          (Inr [text_content (mcp_added_text env (arg_name a) lastInsertRowid)], d1))"

definition mcp_department_stats :: "env \<Rightarrow> args \<Rightarrow> db \<Rightarrow> tool_result \<times> db" where
  "mcp_department_stats env a d =
     (if (case arg_department a of Some dep \<Rightarrow> dep \<noteq> [] | None \<Rightarrow> False)
      then
        (let dep = (case arg_department a of Some x \<Rightarrow> x | None \<Rightarrow> []);
             (stats, d1) = stats_of_department dep d
         in case stats of
              None \<Rightarrow> (Inr [text_content (mcp_no_department_text dep)], d1)
            | Some st \<Rightarrow> (Inr [text_content (mcp_stats_text env st)], d1))
      else
        (let (allStats, d1) = stats_of_all d
         in (Inr [text_content (mcp_all_stats_text env allStats)], d1)))"

definition mcp_promotion_candidates :: "env \<Rightarrow> args \<Rightarrow> db \<Rightarrow> tool_result \<times> db" where
  "mcp_promotion_candidates env a d =
     (if (case arg_department a of Some dep \<Rightarrow> dep \<noteq> [] | None \<Rightarrow> False)
      then
        (let dep = (case arg_department a of Some x \<Rightarrow> x | None \<Rightarrow> []);
             (candidates, d1) = candidates_of_department env HireDate dep d
         in (Inr [text_content (mcp_candidates_text env dep candidates)], d1))
      else
        (let (candidates, d1) = candidates_of_all env HireDate d
         in (Inr [text_content (mcp_all_candidates_text env candidates)], d1)))"

definition mcp_update_performance :: "env \<Rightarrow> args \<Rightarrow> db \<Rightarrow> tool_result \<times> db" where
  "mcp_update_performance env a d =
     (let updates = [];
          updates = (case arg_performance_score a of
                       Some p \<Rightarrow> updates @ [SetPerformance p]
                     | None \<Rightarrow> updates);
          updates = (case arg_quarterly_rating a of
                       Some q \<Rightarrow> if q \<noteq> [] then updates @ [SetRating q] else updates
                     | None \<Rightarrow> updates);
          updates = (case arg_bonus a of
                       Some b \<Rightarrow> updates @ [SetBonus b]
                     | None \<Rightarrow> updates)
      in if length updates = 0
         then (Inr [text_content mcp_no_fields_text], d)
         else
           (let (changes, d1) = update_employees updates (arg_employee_id a) d
            in if changes = 0
               then (Inr [text_content (mcp_no_employee_text env (arg_employee_id a))], d1)
               else
                 (let (employee, d2) = select_name (arg_employee_id a) d1
                  in case employee of
                       None \<Rightarrow> (Inl (TypeError ''employee is undefined''), d2)
                     | Some emp \<Rightarrow> (Inr [text_content (mcp_updated_text emp)], d2))))"

definition mcp_get_team_hierarchy :: "env \<Rightarrow> args \<Rightarrow> db \<Rightarrow> tool_result \<times> db" where
  "mcp_get_team_hierarchy env a d =
     (if (case arg_manager_id a of Some m \<Rightarrow> m \<noteq> 0 | None \<Rightarrow> False)
      then
        (let m = (case arg_manager_id a of Some x \<Rightarrow> x | None \<Rightarrow> 0);
             (team, d1) = select_team m d;
             (manager, d2) = select_manager m d1
         in case manager of
              None \<Rightarrow> (Inr [text_content (mcp_no_manager_text env m)], d2)
            | Some mgr \<Rightarrow> (Inr [text_content (mcp_team_text env mgr team)], d2))
      else
        (let (topManagers, d1) = select_top_managers d;
             (hierarchy, d2) =
               map_db (\<lambda>mgr dm.
                  (let (team, dn) = select_team (of_int (emp_id mgr)) dm
                   in (mcp_manager_block env mgr team, dn)))
                 topManagers d1
         in (Inr [text_content (mcp_hierarchy_text hierarchy)], d2)))"

text \<open>
  The zod schemas of the registrations: \<^verbatim>\<open>z.string()\<close> and \<^verbatim>\<open>z.number()\<close> ask for a
  field that is present, \<^verbatim>\<open>.optional()\<close> lets it be absent, \<^verbatim>\<open>.min(1.0).max(5.0)\<close> is
  the range and \<^verbatim>\<open>z.enum\<close> the list of ratings.
\<close>

definition ratings :: "string list" where
  "ratings = [''A+'', ''A'', ''B+'', ''B'', ''C'']"

definition query_employees_schema :: "args \<Rightarrow> bool" where
  "query_employees_schema a = True"

definition add_employee_schema :: "args \<Rightarrow> bool" where
  "add_employee_schema a =
     (arg_name a \<noteq> None \<and> arg_department a \<noteq> None \<and> arg_level a \<noteq> None \<and>
      (case arg_performance_score a of Some p \<Rightarrow> 1 \<le> p \<and> p \<le> 5 | None \<Rightarrow> False) \<and>
      (case arg_quarterly_rating a of Some q \<Rightarrow> q \<in> set ratings | None \<Rightarrow> False) \<and>
      arg_bonus a \<noteq> None \<and> arg_hire_date a \<noteq> None)"

definition department_stats_schema :: "args \<Rightarrow> bool" where
  "department_stats_schema a = True"

definition promotion_candidates_schema :: "args \<Rightarrow> bool" where
  "promotion_candidates_schema a = True"

definition update_performance_schema :: "args \<Rightarrow> bool" where
  "update_performance_schema a =
     (arg_employee_id a \<noteq> None \<and>
      (case arg_performance_score a of Some p \<Rightarrow> 1 \<le> p \<and> p \<le> 5 | None \<Rightarrow> True) \<and>
      (case arg_quarterly_rating a of Some q \<Rightarrow> q \<in> set ratings | None \<Rightarrow> True))"

definition get_team_hierarchy_schema :: "args \<Rightarrow> bool" where
  "get_team_hierarchy_schema a = True"

text \<open>
  \<^verbatim>\<open>McpServer\<close> belongs to the SDK, not to the repository. Its dispatch is taken as the
  comment in \<^verbatim>\<open>src/employee.ts\<close> has it (``McpServer handles Zod validation
  automatically''): the tool is looked up by name, the arguments are parsed with the
  tool's schema, and the handler runs only on arguments the schema accepts.
\<close>

type_synonym 's registration = "string \<times> (args \<Rightarrow> bool) \<times> (args \<Rightarrow> 's \<Rightarrow> tool_result \<times> 's)"

definition mcp_server_call ::
  "'s registration list \<Rightarrow> string \<Rightarrow> args option \<Rightarrow> 's \<Rightarrow> tool_result \<times> 's" where
  "mcp_server_call tools nm ao d =
     (case map_of tools nm of
        None \<Rightarrow> (Inl (McpError (''Tool '' @ nm @ '' not found'')), d)
      | Some (schema, handler) \<Rightarrow>
          (case ao of
             None \<Rightarrow> (Inl (McpError ''Invalid arguments''), d)
           | Some a \<Rightarrow>
               if schema a then handler a d
               else (Inl (McpError ''Invalid arguments''), d)))"

definition employee_tools :: "env \<Rightarrow> db registration list" where
  "employee_tools env =
     [(''query_employees'', query_employees_schema, mcp_query_employees env),
      (''add_employee'', add_employee_schema, mcp_add_employee env),
      (''department_stats'', department_stats_schema, mcp_department_stats env),
      (''promotion_candidates'', promotion_candidates_schema, mcp_promotion_candidates env),
      (''update_performance'', update_performance_schema, mcp_update_performance env),
      (''get_team_hierarchy'', get_team_hierarchy_schema, mcp_get_team_hierarchy env)]"

definition mcp_call_tool :: "env \<Rightarrow> string \<Rightarrow> args option \<Rightarrow> db \<Rightarrow> tool_result \<times> db" where
  "mcp_call_tool env = mcp_server_call (employee_tools env)"

subsection \<open>The screenshot server (src/screenshoot.ts)\<close>

text \<open>
  The browser is the outside world: \<open>puppeteer\<close> says how each call of the handler ends,
  an error standing for a rejected promise. The handler's state is the list of the calls
  it has made.
\<close>

datatype action = Launch | NewPage | Goto string | Screenshot

record puppeteer =
  launch :: "error + unit"
  newPage :: "error + unit"
  goto :: "string \<Rightarrow> error + unit"
  screenshot :: "string \<Rightarrow> error + 8 word list"

text \<open>
  \<^verbatim>\<open>Uint8Array.prototype.toBase64()\<close> with its defaults: the alphabet of RFC 4648 and
  \<open>=\<close> padding.
\<close>

definition base64_alphabet :: string where
  "base64_alphabet = ''ABCDEFGHIJKLMNOPQRSTUVWXYZabcdefghijklmnopqrstuvwxyz0123456789+/''"

definition b64 :: "nat \<Rightarrow> char" where
  "b64 n = base64_alphabet ! (n mod 64)"

fun toBase64 :: "8 word list \<Rightarrow> string" where
  "toBase64 [] = []"
| "toBase64 [a] =
     (let n = unat a * 65536
      in [b64 (n div 262144), b64 (n div 4096), CHR ''='', CHR ''=''])"
| "toBase64 [a, b] =
     (let n = unat a * 65536 + unat b * 256
      in [b64 (n div 262144), b64 (n div 4096), b64 (n div 64), CHR ''=''])"
| "toBase64 (a # b # c # bs) =
     (let n = unat a * 65536 + unat b * 256 + unat c
      in [b64 (n div 262144), b64 (n div 4096), b64 (n div 64), b64 n] @ toBase64 bs)"

definition get_screenshot ::
  "puppeteer \<Rightarrow> string \<Rightarrow> action list \<Rightarrow> tool_result \<times> action list" where
  "get_screenshot pp url tr =
     (case launch pp of
        Inl e \<Rightarrow> (Inl e, tr @ [Launch])
      | Inr browser \<Rightarrow>
          (case newPage pp of
             Inl e \<Rightarrow> (Inl e, tr @ [Launch, NewPage])
           | Inr page \<Rightarrow>
               (case goto pp url of
                  Inl e \<Rightarrow> (Inl e, tr @ [Launch, NewPage, Goto url])
                | Inr loaded \<Rightarrow>
                    (case screenshot pp url of
                       Inl e \<Rightarrow> (Inl e, tr @ [Launch, NewPage, Goto url, Screenshot])
                     | Inr shot \<Rightarrow>
                         (Inr [image_content (toBase64 shot) ''image/png''],
                          tr @ [Launch, NewPage, Goto url, Screenshot])))))"

definition get_screenshot_schema :: "args \<Rightarrow> bool" where
  "get_screenshot_schema a = (arg_url a \<noteq> None)"

text \<open>The handler is called with the \<^verbatim>\<open>url\<close> that the schema has found present.\<close>

definition screenshot_tools :: "puppeteer \<Rightarrow> (action list) registration list" where
  "screenshot_tools pp =
     [(''get_screenshot'', get_screenshot_schema, \<lambda>a. get_screenshot pp (the (arg_url a)))]"

definition screenshot_call_tool ::
  "puppeteer \<Rightarrow> string \<Rightarrow> args option \<Rightarrow> action list \<Rightarrow> tool_result \<times> action list" where
  "screenshot_call_tool pp = mcp_server_call (screenshot_tools pp)"

subsection \<open>The payloads of a result\<close>

definition is_base64 :: "string \<Rightarrow> bool" where
  "is_base64 s =
     (length s mod 4 = 0 \<and>
      list_all (\<lambda>c. c \<in> set base64_alphabet) (takeWhile (\<lambda>c. c \<noteq> CHR ''='') s) \<and>
      dropWhile (\<lambda>c. c \<noteq> CHR ''='') s \<in> set [[], ''='', ''==''])"

definition is_text_payload :: "content_item \<Rightarrow> bool" where
  "is_text_payload item =
     (map fst item = [''type'', ''text''] \<and> map_of item ''type'' = Some ''text'')"

definition is_image_payload :: "content_item \<Rightarrow> bool" where
  "is_image_payload item =
     (map fst item = [''type'', ''data'', ''mimeType''] \<and>
      map_of item ''type'' = Some ''image'' \<and>
      (case map_of item ''data'' of Some d \<Rightarrow> is_base64 d | None \<Rightarrow> False))"

definition payloads_ok :: "tool_result \<Rightarrow> bool" where
  "payloads_ok r =
     (case r of
        Inl e \<Rightarrow> True
      | Inr content \<Rightarrow> list_all (\<lambda>item. is_text_payload item \<or> is_image_payload item) content)"

subsection \<open>The sample data and a concrete environment\<close>

text \<open>
  The table both employee programs start from: the rows of \<^verbatim>\<open>sampleData\<close>
  (\<^verbatim>\<open>src/screenshoot.ts\<close>), inserted in order into the empty table.
\<close>

definition empty_db :: db where
  "empty_db = \<lparr>rows = [], seq = 0, executed = []\<rparr>"

definition sampleData ::
  "(string \<times> string \<times> string \<times> real \<times> string \<times> real \<times> string \<times> real option) list" where
  "sampleData =
     [(''{u7530}{u4E2D}{u30DE}{u30CD}{u30FC}{u30B8}{u30E3}{u30FC}'', ''{u6280}{u8853}{u90E8}'', ''M2'', 4.8, ''A+'', 50000, ''2020-01-15'', None),
      (''{u5C71}{u7530}{u90E8}{u9577}'', ''{u30D7}{u30ED}{u30C0}{u30AF}{u30C8}{u90E8}'', ''M3'', 4.6, ''A'', 80000, ''2019-03-20'', None),
      (''{u4F50}{u85E4}{u4E3B}{u4EFB}'', ''{u6280}{u8853}{u90E8}'', ''M1'', 4.4, ''A'', 35000, ''2021-06-10'', Some 1),
      (''{u9234}{u6728}{u30A8}{u30F3}{u30B8}{u30CB}{u30A2}'', ''{u6280}{u8853}{u90E8}'', ''P7'', 4.2, ''A'', 30000, ''2021-08-15'', Some 3),
      (''{u9AD8}{u6A4B}{u30A8}{u30F3}{u30B8}{u30CB}{u30A2}'', ''{u6280}{u8853}{u90E8}'', ''P6'', 3.8, ''B+'', 25000, ''2022-01-20'', Some 3),
      (''{u6E21}{u8FBA}{u30A8}{u30F3}{u30B8}{u30CB}{u30A2}'', ''{u6280}{u8853}{u90E8}'', ''P6'', 4.0, ''A'', 28000, ''2022-03-10'', Some 3),
      (''{u4F0A}{u85E4}{u30A8}{u30F3}{u30B8}{u30CB}{u30A2}'', ''{u6280}{u8853}{u90E8}'', ''P5'', 3.6, ''B+'', 18000, ''2022-09-01'', Some 4),
      (''{u677E}{u672C}{u30A8}{u30F3}{u30B8}{u30CB}{u30A2}'', ''{u6280}{u8853}{u90E8}'', ''P5'', 3.4, ''B'', 15000, ''2023-02-15'', Some 4),
      (''{u4E2D}{u6751}{u30A8}{u30F3}{u30B8}{u30CB}{u30A2}'', ''{u6280}{u8853}{u90E8}'', ''P4'', 3.2, ''B'', 12000, ''2023-05-20'', Some 5),
      (''{u5C0F}{u6797}{u30D7}{u30ED}{u30C0}{u30AF}{u30C8}'', ''{u30D7}{u30ED}{u30C0}{u30AF}{u30C8}{u90E8}'', ''P6'', 4.1, ''A'', 26000, ''2021-11-10'', Some 2),
      (''{u52A0}{u85E4}{u30D7}{u30ED}{u30C0}{u30AF}{u30C8}'', ''{u30D7}{u30ED}{u30C0}{u30AF}{u30C8}{u90E8}'', ''P5'', 3.7, ''B+'', 20000, ''2022-07-15'', Some 10),
      (''{u5409}{u7530}{u30D7}{u30ED}{u30C0}{u30AF}{u30C8}'', ''{u30D7}{u30ED}{u30C0}{u30AF}{u30C8}{u90E8}'', ''P4'', 3.3, ''B'', 14000, ''2023-01-08'', Some 10)]"

definition insert_sample ::
  "string \<times> string \<times> string \<times> real \<times> string \<times> real \<times> string \<times> real option \<Rightarrow> db \<Rightarrow> db" where
  "insert_sample r d =
     (case r of (n, dep, l, p, q, b, h, m) \<Rightarrow>
        snd (insert_employee (Some n) (Some dep) (Some l) (Some p) (Some q) (Some b) (Some h) m d))"

definition initial_db :: db where
  "initial_db = fold insert_sample sampleData empty_db"

text \<open>
  A concrete environment for the worked examples. Numbers print in decimal notation, as
  JS prints integers and short decimals. \<open>date_only\<close> stands for \<^verbatim>\<open>DATE()\<close> on the values
  the examples hold: a text \<^verbatim>\<open>YYYY-MM-DD\<close> that names a day of the calendar comes back
  as it is, and a text that is none of SQLite's time values (a date, a time of day,
  \<^verbatim>\<open>now\<close>, a number) is NULL. The call is made on 2 November 2026.
\<close>

fun dec_digits :: "nat \<Rightarrow> string" where
  "dec_digits n =
     (if n < 10 then [''0123456789'' ! n]
      else dec_digits (n div 10) @ [''0123456789'' ! (n mod 10)])"

declare dec_digits.simps [simp del]

primrec frac_digits :: "nat \<Rightarrow> real \<Rightarrow> string" where
  "frac_digits 0 x = []"
| "frac_digits (Suc k) x =
     (if x = 0 then []
      else (''0123456789'' ! nat \<lfloor>10 * x\<rfloor>) # frac_digits k (10 * x - of_int \<lfloor>10 * x\<rfloor>))"

definition decimal :: "real \<Rightarrow> string" where
  "decimal x =
     (if x < 0 then ''-'' else []) @ dec_digits (nat \<lfloor>\<bar>x\<bar>\<rfloor>) @
     (if frac \<bar>x\<bar> = 0 then [] else ''.'' @ frac_digits 17 (frac \<bar>x\<bar>))"

definition fixed2 :: "real \<Rightarrow> string" where
  "fixed2 x =
     (let n = nat \<lfloor>\<bar>x\<bar> * 100 + 1 / 2\<rfloor>
      in (if x < 0 then ''-'' else []) @ dec_digits (n div 100) @ ''.'' @
         [''0123456789'' ! (n div 10 mod 10), ''0123456789'' ! (n mod 10)])"

definition days_in_month :: "nat \<Rightarrow> nat \<Rightarrow> nat" where
  "days_in_month y m =
     (if m = 2 then (if y mod 4 = 0 \<and> (y mod 100 \<noteq> 0 \<or> y mod 400 = 0) then 29 else 28)
      else if m = 4 \<or> m = 6 \<or> m = 9 \<or> m = 11 then 30
      else 31)"

definition date_only :: "dateval \<Rightarrow> string option" where
  "date_only v =
     (case v of
        DNum n \<Rightarrow> None
      | DText s \<Rightarrow>
          if length s = 10 \<and> list_all is_digit (take 4 s) \<and> s ! 4 = CHR ''-'' \<and>
             list_all is_digit (take 2 (drop 5 s)) \<and> s ! 7 = CHR ''-'' \<and>
             list_all is_digit (drop 8 s) \<and>
             1 \<le> digits_val (take 2 (drop 5 s)) \<and> digits_val (take 2 (drop 5 s)) \<le> 12 \<and>
             1 \<le> digits_val (drop 8 s) \<and>
             digits_val (drop 8 s) \<le>
               days_in_month (digits_val (take 4 s)) (digits_val (take 2 (drop 5 s)))
          then Some s
          else None)"

definition example_env :: env where
  "example_env =
     \<lparr>num_str = decimal, to_fixed2 = fixed2, sql_date = date_only,
      date_now_minus_1_year = ''2025-11-02''\<rparr>"

subsection \<open>Notions for stating the properties\<close>

text \<open>The six tools of the employee server.\<close>

definition tool_names :: "string list" where
  "tool_names =
     [''query_employees'', ''add_employee'', ''department_stats'', ''promotion_candidates'',
      ''update_performance'', ''get_team_hierarchy'']"

text \<open>The statements executed on the way from \<open>d\<close> to \<open>d'\<close>.\<close>

definition statements_of :: "db \<Rightarrow> db \<Rightarrow> statement list" where
  "statements_of d d' = drop (length (executed d)) (executed d')"

text \<open>The table itself: its rows and the AUTOINCREMENT counter.\<close>

definition same_table :: "db \<Rightarrow> db \<Rightarrow> bool" where
  "same_table d d' = (rows d' = rows d \<and> seq d' = seq d)"

text \<open>A text occurs in another: as a block of consecutive characters.\<close>

fun is_prefix :: "string \<Rightarrow> string \<Rightarrow> bool" where
  "is_prefix [] ys = True"
| "is_prefix (x # xs) [] = False"
| "is_prefix (x # xs) (y # ys) = (x = y \<and> is_prefix xs ys)"

fun occurs_in :: "string \<Rightarrow> string \<Rightarrow> bool" where
  "occurs_in xs [] = (xs = [])"
| "occurs_in xs (y # ys) = (is_prefix xs (y # ys) \<or> occurs_in xs ys)"

text \<open>
  Every stored \<^verbatim>\<open>hire_date\<close> is a text that \<^verbatim>\<open>DATE()\<close> returns as it is, as the
  \<^verbatim>\<open>YYYY-MM-DD\<close> dates of the sample data are.
\<close>

definition canonical_date :: "env \<Rightarrow> employee \<Rightarrow> bool" where
  "canonical_date env e =
     (case hire_date e of DNum n \<Rightarrow> False | DText s \<Rightarrow> sql_date env (DText s) = Some s)"

definition dates_canonical :: "env \<Rightarrow> db \<Rightarrow> bool" where
  "dates_canonical env d = list_all (canonical_date env) (rows d)"

text \<open>
  The mismatches with the schema of \<^verbatim>\<open>add_employee\<close> that C1 lists: a required field is
  missing, \<^verbatim>\<open>performance_score\<close> lies outside 1.0 to 5.0, or \<^verbatim>\<open>quarterly_rating\<close> is
  none of the five ratings.
\<close>

definition add_employee_mismatch :: "args \<Rightarrow> bool" where
  "add_employee_mismatch a =
     (arg_name a = None \<or> arg_department a = None \<or> arg_level a = None \<or>
      arg_performance_score a = None \<or> arg_quarterly_rating a = None \<or>
      arg_bonus a = None \<or> arg_hire_date a = None \<or>
      (case arg_performance_score a of Some p \<Rightarrow> p < 1 \<or> 5 < p | None \<Rightarrow> False) \<or>
      (case arg_quarterly_rating a of
         Some q \<Rightarrow> q \<notin> set [''A+'', ''A'', ''B+'', ''B'', ''C'']
       | None \<Rightarrow> False))"

text \<open>Arguments that the schema of \<^verbatim>\<open>add_employee\<close> accepts, for the worked examples.\<close>

definition newcomer :: args where
  "newcomer =
     no_args\<lparr>arg_name := Some ''Ada'', arg_department := Some ''QA'', arg_level := Some ''P4'',
       arg_performance_score := Some 4.5, arg_quarterly_rating := Some ''A'',
       arg_bonus := Some 1000, arg_hire_date := Some ''2024-04-01''\<rparr>"

section \<open>Properties\<close>

subsection \<open>The database layer\<close>

lemma rows_exec [simp]: "rows (exec s d) = rows d"
  by (simp add: exec_def)

lemma seq_exec [simp]: "seq (exec s d) = seq d"
  by (simp add: exec_def)

lemma executed_exec [simp]: "executed (exec s d) = executed d @ [s]"
  by (simp add: exec_def)

lemma same_table_exec [simp]: "same_table d (exec s d)"
  by (simp add: same_table_def)

lemma same_table_executed [simp]: "same_table d (d\<lparr>executed := x\<rparr>)"
  by (simp add: same_table_def)

lemma statements_of_append [simp]:
  "statements_of d (d\<lparr>executed := executed d @ ss\<rparr>) = ss"
  by (simp add: statements_of_def)

lemma statements_of_exec [simp]: "statements_of d (exec s d) = [s]"
  by (simp add: statements_of_def)

lemma statements_of_exec2 [simp]: "statements_of d (exec t (exec s d)) = [s, t]"
  by (simp add: statements_of_def)

lemma statements_of_same [simp]: "statements_of d d = []"
  by (simp add: statements_of_def)

lemma set_insert_by: "set (insert_by le x xs) = insert x (set xs)"
  by (induction xs) auto

lemma set_order_by [simp]: "set (order_by le xs) = set xs"
  by (induction xs) (auto simp: order_by_def set_insert_by)

lemma length_insert_by: "length (insert_by le x xs) = Suc (length xs)"
  by (induction xs) auto

lemma length_order_by [simp]: "length (order_by le xs) = length xs"
  by (induction xs) (auto simp: order_by_def length_insert_by)

lemma snd_select_filtered [simp]: "snd (select_filtered c d) = exec (SelectFiltered c) d"
  by (simp add: select_filtered_def)

lemma snd_stats_of_department [simp]:
  "snd (stats_of_department dep d) = exec (StatsOfDepartment dep) d"
  by (simp add: stats_of_department_def Let_def)

lemma snd_stats_of_all [simp]: "snd (stats_of_all d) = exec StatsOfAll d"
  by (simp add: stats_of_all_def)

lemma snd_candidates_of_department [simp]:
  "snd (candidates_of_department env t dep d) = exec (CandidatesOfDepartment t dep) d"
  by (simp add: candidates_of_department_def)

lemma snd_candidates_of_all [simp]:
  "snd (candidates_of_all env t d) = exec (CandidatesOfAll t) d"
  by (simp add: candidates_of_all_def)

lemma snd_select_name [simp]: "snd (select_name i d) = exec (SelectName i) d"
  by (simp add: select_name_def)

lemma snd_select_team [simp]: "snd (select_team m d) = exec (SelectTeam m) d"
  by (simp add: select_team_def)

lemma snd_select_manager [simp]: "snd (select_manager m d) = exec (SelectManager m) d"
  by (simp add: select_manager_def)

lemma snd_select_top_managers [simp]:
  "snd (select_top_managers d) = exec SelectTopManagers d"
  by (simp add: select_top_managers_def)

text \<open>
  A \<^verbatim>\<open>map\<close> whose function runs one statement that reads the table: the results are
  those on the table the map started from, and the statements are logged in order.
\<close>

lemma map_db_frame:
  assumes "\<And>x dm. f x dm = (h x (rows dm), exec (st x) dm)"
  shows "map_db f xs d =
           (map (\<lambda>x. h x (rows d)) xs, d\<lparr>executed := executed d @ map st xs\<rparr>)"
proof (induction xs arbitrary: d)
  case Nil
  show ?case by simp
next
  case (Cons x xs)
  have "map_db f (x # xs) d =
          (h x (rows d) # fst (map_db f xs (exec (st x) d)), snd (map_db f xs (exec (st x) d)))"
    by (simp add: assms split_def Let_def)
  also have "\<dots> = (map (\<lambda>x. h x (rows d)) (x # xs),
                     d\<lparr>executed := executed d @ map st (x # xs)\<rparr>)"
    by (simp add: Cons.IH exec_def)
  finally show ?case .
qed

lemma team_blocks:
  "map_db (\<lambda>mgr dm. (blk mgr (fst (select_team (of_int (emp_id mgr)) dm)),
                      dm\<lparr>executed := executed dm @ [SelectTeam (of_int (emp_id mgr))]\<rparr>)) xs d =
     (map (\<lambda>mgr. blk mgr (fst (select_team (of_int (emp_id mgr)) d))) xs,
      d\<lparr>executed := executed d @ map (\<lambda>mgr. SelectTeam (of_int (emp_id mgr))) xs\<rparr>)"
  by (rule map_db_frame [where h = "\<lambda>mgr rs. blk mgr
         (order_by by_level_performance_desc
            (filter (\<lambda>e. manager_id e = Some (of_int (emp_id mgr))) rs))",
       THEN trans])
     (simp_all add: select_team_def exec_def)


subsection \<open>What a handler leaves in the database\<close>

lemma statements_of_insert:
  "statements_of d (snd (insert_employee n dep l p q b h m d)) = [InsertEmployee]"
  by (simp add: insert_employee_def statements_of_def split: option.splits)

lemma raw_query_employees_db:
  "same_table d (snd (raw_query_employees env a d)) \<and>
   length (statements_of d (snd (raw_query_employees env a d))) = 1"
  by (simp add: raw_query_employees_def Let_def split_def)

lemma raw_department_stats_db:
  "same_table d (snd (raw_department_stats env a d)) \<and>
   length (statements_of d (snd (raw_department_stats env a d))) = 1"
  by (simp add: raw_department_stats_def Let_def split_def split: option.splits)

lemma raw_promotion_candidates_db:
  "same_table d (snd (raw_promotion_candidates env a d)) \<and>
   length (statements_of d (snd (raw_promotion_candidates env a d))) = 1"
  by (simp add: raw_promotion_candidates_def Let_def split_def)

lemma raw_get_team_hierarchy_db:
  "snd (raw_get_team_hierarchy env a d) =
     d\<lparr>executed := executed d @
        (if (case arg_manager_id a of Some m \<Rightarrow> m \<noteq> 0 | None \<Rightarrow> False)
         then [SelectTeam (the (arg_manager_id a)), SelectManager (the (arg_manager_id a))]
         else SelectTopManagers #
              map (\<lambda>mgr. SelectTeam (of_int (emp_id mgr))) (fst (select_top_managers d)))\<rparr>"
  by (simp add: raw_get_team_hierarchy_def Let_def split_def team_blocks exec_def
        select_top_managers_def
      split: option.splits)

lemma snd_raw_add_employee:
  "snd (raw_add_employee env a d) =
     snd (insert_employee (arg_name a) (arg_department a) (arg_level a)
            (arg_performance_score a) (arg_quarterly_rating a) (arg_bonus a) (arg_hire_date a)
            (case arg_manager_id a of Some m \<Rightarrow> if m \<noteq> 0 then Some m else None | None \<Rightarrow> None)
            d)"
  by (simp add: raw_add_employee_def split: prod.splits sum.splits)

lemma raw_add_employee_db:
  "statements_of d (snd (raw_add_employee env a d)) = [InsertEmployee]"
  by (simp only: snd_raw_add_employee statements_of_insert)

lemma raw_update_performance_db:
  "length (statements_of d (snd (raw_update_performance env a d))) =
     (if arg_performance_score a = None \<and>
         (arg_quarterly_rating a = None \<or> arg_quarterly_rating a = Some []) \<and>
         arg_bonus a = None
      then 0
      else if filter (id_is (arg_employee_id a)) (rows d) = [] then 1
      else 2)"
  by (simp add: raw_update_performance_def Let_def split_def update_employees_def
        statements_of_def exec_def
      split: option.splits)

lemma mcp_query_employees_db:
  "same_table d (snd (mcp_query_employees env a d)) \<and>
   length (statements_of d (snd (mcp_query_employees env a d))) = 1"
  by (simp add: mcp_query_employees_def Let_def split_def)

lemma mcp_department_stats_db:
  "same_table d (snd (mcp_department_stats env a d)) \<and>
   length (statements_of d (snd (mcp_department_stats env a d))) = 1"
  by (simp add: mcp_department_stats_def Let_def split_def split: option.splits)

lemma mcp_promotion_candidates_db:
  "same_table d (snd (mcp_promotion_candidates env a d)) \<and>
   length (statements_of d (snd (mcp_promotion_candidates env a d))) = 1"
  by (simp add: mcp_promotion_candidates_def Let_def split_def)

lemma mcp_get_team_hierarchy_db:
  "snd (mcp_get_team_hierarchy env a d) =
     d\<lparr>executed := executed d @
        (if (case arg_manager_id a of Some m \<Rightarrow> m \<noteq> 0 | None \<Rightarrow> False)
         then [SelectTeam (the (arg_manager_id a)), SelectManager (the (arg_manager_id a))]
         else SelectTopManagers #
              map (\<lambda>mgr. SelectTeam (of_int (emp_id mgr))) (fst (select_top_managers d)))\<rparr>"
  by (simp add: mcp_get_team_hierarchy_def Let_def split_def team_blocks exec_def
        select_top_managers_def
      split: option.splits)

lemma snd_mcp_add_employee:
  "snd (mcp_add_employee env a d) =
     snd (insert_employee (arg_name a) (arg_department a) (arg_level a)
            (arg_performance_score a) (arg_quarterly_rating a) (arg_bonus a) (arg_hire_date a)
            (case arg_manager_id a of Some m \<Rightarrow> if m \<noteq> 0 then Some m else None | None \<Rightarrow> None)
            d)"
  by (simp add: mcp_add_employee_def split: prod.splits sum.splits)

lemma mcp_add_employee_db:
  "statements_of d (snd (mcp_add_employee env a d)) = [InsertEmployee]"
  by (simp only: snd_mcp_add_employee statements_of_insert)

lemma mcp_update_performance_db:
  "length (statements_of d (snd (mcp_update_performance env a d))) =
     (if arg_performance_score a = None \<and>
         (arg_quarterly_rating a = None \<or> arg_quarterly_rating a = Some []) \<and>
         arg_bonus a = None
      then 0
      else if filter (id_is (arg_employee_id a)) (rows d) = [] then 1
      else 2)"
  by (simp add: mcp_update_performance_def Let_def split_def update_employees_def
        statements_of_def exec_def
      split: option.splits)

subsection \<open>The sample table, evaluated\<close>

lemma initial_db_eval:
  "initial_db =
     \<lparr>rows =
       [\<lparr>emp_id = 1, name = ''{u7530}{u4E2D}{u30DE}{u30CD}{u30FC}{u30B8}{u30E3}{u30FC}'',
         department = ''{u6280}{u8853}{u90E8}'', level = ''M2'',
         performance_score = 4.8, quarterly_rating = ''A+'', bonus = 50000,
         hire_date = DText ''2020-01-15'', manager_id = None\<rparr>,
        \<lparr>emp_id = 2, name = ''{u5C71}{u7530}{u90E8}{u9577}'',
         department = ''{u30D7}{u30ED}{u30C0}{u30AF}{u30C8}{u90E8}'', level = ''M3'',
         performance_score = 4.6, quarterly_rating = ''A'', bonus = 80000,
         hire_date = DText ''2019-03-20'', manager_id = None\<rparr>,
        \<lparr>emp_id = 3, name = ''{u4F50}{u85E4}{u4E3B}{u4EFB}'',
         department = ''{u6280}{u8853}{u90E8}'', level = ''M1'',
         performance_score = 4.4, quarterly_rating = ''A'', bonus = 35000,
         hire_date = DText ''2021-06-10'', manager_id = Some 1\<rparr>,
        \<lparr>emp_id = 4, name = ''{u9234}{u6728}{u30A8}{u30F3}{u30B8}{u30CB}{u30A2}'',
         department = ''{u6280}{u8853}{u90E8}'', level = ''P7'',
         performance_score = 4.2, quarterly_rating = ''A'', bonus = 30000,
         hire_date = DText ''2021-08-15'', manager_id = Some 3\<rparr>,
        \<lparr>emp_id = 5, name = ''{u9AD8}{u6A4B}{u30A8}{u30F3}{u30B8}{u30CB}{u30A2}'',
         department = ''{u6280}{u8853}{u90E8}'', level = ''P6'',
         performance_score = 3.8, quarterly_rating = ''B+'', bonus = 25000,
         hire_date = DText ''2022-01-20'', manager_id = Some 3\<rparr>,
        \<lparr>emp_id = 6, name = ''{u6E21}{u8FBA}{u30A8}{u30F3}{u30B8}{u30CB}{u30A2}'',
         department = ''{u6280}{u8853}{u90E8}'', level = ''P6'',
         performance_score = 4.0, quarterly_rating = ''A'', bonus = 28000,
         hire_date = DText ''2022-03-10'', manager_id = Some 3\<rparr>,
        \<lparr>emp_id = 7, name = ''{u4F0A}{u85E4}{u30A8}{u30F3}{u30B8}{u30CB}{u30A2}'',
         department = ''{u6280}{u8853}{u90E8}'', level = ''P5'',
         performance_score = 3.6, quarterly_rating = ''B+'', bonus = 18000,
         hire_date = DText ''2022-09-01'', manager_id = Some 4\<rparr>,
        \<lparr>emp_id = 8, name = ''{u677E}{u672C}{u30A8}{u30F3}{u30B8}{u30CB}{u30A2}'',
         department = ''{u6280}{u8853}{u90E8}'', level = ''P5'',
         performance_score = 3.4, quarterly_rating = ''B'', bonus = 15000,
         hire_date = DText ''2023-02-15'', manager_id = Some 4\<rparr>,
        \<lparr>emp_id = 9, name = ''{u4E2D}{u6751}{u30A8}{u30F3}{u30B8}{u30CB}{u30A2}'',
         department = ''{u6280}{u8853}{u90E8}'', level = ''P4'',
         performance_score = 3.2, quarterly_rating = ''B'', bonus = 12000,
         hire_date = DText ''2023-05-20'', manager_id = Some 5\<rparr>,
        \<lparr>emp_id = 10, name = ''{u5C0F}{u6797}{u30D7}{u30ED}{u30C0}{u30AF}{u30C8}'',
         department = ''{u30D7}{u30ED}{u30C0}{u30AF}{u30C8}{u90E8}'', level = ''P6'',
         performance_score = 4.1, quarterly_rating = ''A'', bonus = 26000,
         hire_date = DText ''2021-11-10'', manager_id = Some 2\<rparr>,
        \<lparr>emp_id = 11, name = ''{u52A0}{u85E4}{u30D7}{u30ED}{u30C0}{u30AF}{u30C8}'',
         department = ''{u30D7}{u30ED}{u30C0}{u30AF}{u30C8}{u90E8}'', level = ''P5'',
         performance_score = 3.7, quarterly_rating = ''B+'', bonus = 20000,
         hire_date = DText ''2022-07-15'', manager_id = Some 10\<rparr>,
        \<lparr>emp_id = 12, name = ''{u5409}{u7530}{u30D7}{u30ED}{u30C0}{u30AF}{u30C8}'',
         department = ''{u30D7}{u30ED}{u30C0}{u30AF}{u30C8}{u90E8}'', level = ''P4'',
         performance_score = 3.3, quarterly_rating = ''B'', bonus = 14000,
         hire_date = DText ''2023-01-08'', manager_id = Some 10\<rparr>],
      seq = 12,
      executed = replicate 12 InsertEmployee\<rparr>"
  by (simp add: initial_db_def sampleData_def insert_sample_def insert_employee_def
      next_rowid_def numeric_affinity_def numeric_literal_def empty_db_def exec_def
      is_space_def is_digit_def digits_val_def Let_def numeral_eq_Suc)

lemma top_managers_initial:
  "fst (select_top_managers initial_db) = [rows initial_db ! 1, rows initial_db ! 0]"
  by (simp add: initial_db_eval select_top_managers_def order_by_def by_level_desc_def)


lemma decimal_examples:
  "decimal 0 = ''0''" "decimal 1 = ''1''" "decimal 2 = ''2''" "decimal 7 = ''7''"
  "decimal 13 = ''13''" "decimal 99 = ''99''" "decimal 1000 = ''1000''"
  "decimal (- 1) = ''-1''"
  by (simp_all add: decimal_def dec_digits.simps)

lemma decimal_half: "decimal (9 / 2) = ''4.5''"
  by (simp add: decimal_def dec_digits.simps frac_def eval_nat_numeral)

subsection \<open>The payloads\<close>

lemma payloads_ok_error [simp]: "payloads_ok (Inl e)"
  by (simp add: payloads_ok_def)

lemma payloads_ok_text [simp]: "payloads_ok (Inr [text_content t])"
  by (simp add: payloads_ok_def is_text_payload_def text_content_def)

lemma b64_in_alphabet: "b64 n \<in> set base64_alphabet"
proof -
  have "n mod 64 < length base64_alphabet"
    by (simp add: base64_alphabet_def)
  then show ?thesis
    unfolding b64_def by (rule nth_mem)
qed

lemma b64_not_padding: "b64 n \<noteq> CHR ''=''"
proof -
  have "CHR ''='' \<notin> set base64_alphabet"
    by (simp add: base64_alphabet_def)
  with b64_in_alphabet [of n] show ?thesis by metis
qed

lemma toBase64_is_base64: "is_base64 (toBase64 bs)"
proof (induction bs rule: toBase64.induct)
  case 1
  show ?case by (simp add: is_base64_def)
next
  case (2 a)
  show ?case by (simp add: is_base64_def Let_def b64_in_alphabet b64_not_padding)
next
  case (3 a b)
  show ?case by (simp add: is_base64_def Let_def b64_in_alphabet b64_not_padding)
next
  case (4 a b c bs)
  then show ?case
    by (simp add: is_base64_def Let_def b64_in_alphabet b64_not_padding)
qed

lemma payloads_ok_image [simp]: "payloads_ok (Inr [image_content (toBase64 bs) m])"
  by (simp add: payloads_ok_def is_image_payload_def image_content_def toBase64_is_base64)

lemma get_screenshot_payloads: "payloads_ok (fst (get_screenshot pp url tr))"
  by (simp add: get_screenshot_def split: sum.splits)

lemma raw_payloads:
  "payloads_ok (fst (raw_query_employees env a d))"
  "payloads_ok (fst (raw_add_employee env a d))"
  "payloads_ok (fst (raw_department_stats env a d))"
  "payloads_ok (fst (raw_promotion_candidates env a d))"
  "payloads_ok (fst (raw_update_performance env a d))"
  "payloads_ok (fst (raw_get_team_hierarchy env a d))"
  by (simp_all add: raw_query_employees_def raw_add_employee_def raw_department_stats_def
      raw_promotion_candidates_def raw_update_performance_def raw_get_team_hierarchy_def
      Let_def split_def split: option.splits prod.splits sum.splits)

lemma mcp_payloads:
  "payloads_ok (fst (mcp_query_employees env a d))"
  "payloads_ok (fst (mcp_add_employee env a d))"
  "payloads_ok (fst (mcp_department_stats env a d))"
  "payloads_ok (fst (mcp_promotion_candidates env a d))"
  "payloads_ok (fst (mcp_update_performance env a d))"
  "payloads_ok (fst (mcp_get_team_hierarchy env a d))"
  by (simp_all add: mcp_query_employees_def mcp_add_employee_def mcp_department_stats_def
      mcp_promotion_candidates_def mcp_update_performance_def mcp_get_team_hierarchy_def
      Let_def split_def split: option.splits prod.splits sum.splits)

subsection \<open>Updates that change nothing\<close>





subsection \<open>Texts that occur in a listing\<close>

lemma is_prefix_iff: "is_prefix xs ys \<longleftrightarrow> (\<exists>post. ys = xs @ post)"
  by (induction xs ys rule: is_prefix.induct) auto

lemma occurs_in_iff: "occurs_in xs ys \<longleftrightarrow> (\<exists>pre post. ys = pre @ xs @ post)"
proof (induction ys)
  case Nil
  show ?case by auto
next
  case (Cons y ys)
  show ?case
  proof
    assume "occurs_in xs (y # ys)"
    then consider "is_prefix xs (y # ys)" | "occurs_in xs ys" by auto
    then show "\<exists>pre post. y # ys = pre @ xs @ post"
    proof cases
      case 1
      then obtain post where "y # ys = xs @ post" by (auto simp: is_prefix_iff)
      then have "y # ys = [] @ xs @ post" by simp
      then show ?thesis by blast
    next
      case 2
      with Cons.IH obtain pre post where "ys = pre @ xs @ post" by blast
      then have "y # ys = (y # pre) @ xs @ post" by simp
      then show ?thesis by blast
    qed
  next
    assume "\<exists>pre post. y # ys = pre @ xs @ post"
    then obtain pre post where eq: "y # ys = pre @ xs @ post" by blast
    show "occurs_in xs (y # ys)"
    proof (cases pre)
      case Nil
      with eq have "is_prefix xs (y # ys)" by (auto simp: is_prefix_iff)
      then show ?thesis by simp
    next
      case (Cons p pre')
      with eq have "ys = pre' @ xs @ post" by simp
      with Cons.IH have "occurs_in xs ys" by blast
      then show ?thesis by simp
    qed
  qed
qed

lemma occurs_in_after: "occurs_in xs zs \<Longrightarrow> occurs_in xs (ys @ zs)"
proof -
  assume "occurs_in xs zs"
  then obtain pre post where "zs = pre @ xs @ post" by (auto simp: occurs_in_iff)
  then have "ys @ zs = (ys @ pre) @ xs @ post" by simp
  then show ?thesis unfolding occurs_in_iff by blast
qed

lemma occurs_in_before: "occurs_in xs (xs @ zs)"
proof -
  have "xs @ zs = [] @ xs @ zs" by simp
  then show ?thesis unfolding occurs_in_iff by blast
qed

lemma occurs_in_join: "x \<in> set xs \<Longrightarrow> occurs_in x (join sep xs)"
proof (induction sep xs rule: join.induct)
  case (1 sep)
  then show ?case by simp
next
  case (2 sep y)
  then have "x = y" by simp
  then show ?case using occurs_in_before [of y "[]"] by simp
next
  case (3 sep y z zs)
  show ?case
  proof (cases "x = y")
    case True
    then show ?thesis by (simp add: occurs_in_before)
  next
    case False
    with "3.prems" have "x \<in> set (z # zs)" by simp
    then have "occurs_in x (join sep (z # zs))" by (rule "3.IH")
    then have "occurs_in x (y @ sep @ join sep (z # zs))"
      by (intro occurs_in_after)
    then show ?thesis by simp
  qed
qed

lemma le_foldr_max: "(x::int) \<in> set xs \<Longrightarrow> x \<le> foldr max xs 0"
  by (induction xs) auto

lemma next_rowid_fresh: "next_rowid d \<notin> set (map emp_id (rows d))"
proof
  assume "next_rowid d \<in> set (map emp_id (rows d))"
  then have "next_rowid d \<le> foldr max (map emp_id (rows d)) 0"
    by (rule le_foldr_max)
  then show False
    by (simp add: next_rowid_def)
qed

lemma raw_found_text_lists:
  assumes "e \<in> set es"
  shows "occurs_in (raw_employee_entry env e) (raw_found_text env es)"
proof -
  from assms have "occurs_in (raw_employee_entry env e)
                     (join ''\<newline>'' (map (raw_employee_entry env) es))"
    by (intro occurs_in_join) simp
  then show ?thesis
    unfolding raw_found_text_def by (intro occurs_in_after)
qed

lemma raw_query_lists:
  assumes "e \<in> set (rows d)"
    and "arg_department q = Some (department e)"
    and "arg_level q = Some (level e)"
    and "arg_min_performance q = Some m"
    and "m \<le> performance_score e"
  shows "\<exists>t. fst (raw_query_employees env q d) = Inr [text_content t] \<and>
             occurs_in (raw_employee_entry env e) t"
proof -
  define ps where "ps =
    (if department e \<noteq> [] then [DepartmentEq (department e)] else []) @
    (if level e \<noteq> [] then [LevelEq (level e)] else []) @
    (if m \<noteq> 0 then [PerformanceGe m] else [])"
  have "fst (raw_query_employees env q d) =
          Inr [text_content (raw_found_text env (fst (select_filtered ps d)))]"
    using assms(2,3,4) by (simp add: raw_query_employees_def Let_def split_def ps_def)
  moreover have "e \<in> set (fst (select_filtered ps d))"
    using assms(1,5) by (simp add: select_filtered_def ps_def)
  ultimately show ?thesis
    using raw_found_text_lists by blast
qed

lemma raw_add_inserts:
  assumes "arg_name a = Some n" "arg_department a = Some dep" "arg_level a = Some l"
    and "arg_performance_score a = Some s" "arg_quarterly_rating a = Some r"
    and "arg_bonus a = Some b" "arg_hire_date a = Some h"
  shows "raw_add_employee env a d =
           (Inr [text_content (raw_added_text env (Some n) (next_rowid d))],
            exec InsertEmployee
              (d\<lparr>rows := rows d @
                    [\<lparr>emp_id = next_rowid d, name = n, department = dep, level = l,
                      performance_score = s, quarterly_rating = r, bonus = b,
                      hire_date = numeric_affinity h,
                      manager_id = (case arg_manager_id a of
                                      Some m \<Rightarrow> if m \<noteq> 0 then Some m else None
                                    | None \<Rightarrow> None)\<rparr>],
                 seq := next_rowid d\<rparr>))"
  using assms by (simp add: raw_add_employee_def insert_employee_def)

lemma mcp_found_text_lists:
  assumes "e \<in> set es"
  shows "occurs_in (mcp_employee_entry env e) (mcp_found_text env es)"
proof -
  from assms have "occurs_in (mcp_employee_entry env e)
                     (join ''\<newline>'' (map (mcp_employee_entry env) es))"
    by (intro occurs_in_join) simp
  then show ?thesis
    unfolding mcp_found_text_def by (intro occurs_in_after)
qed

lemma mcp_query_lists:
  assumes "e \<in> set (rows d)"
    and "arg_department q = Some (department e)"
    and "arg_level q = Some (level e)"
    and "arg_min_performance q = Some m"
    and "m \<le> performance_score e"
  shows "\<exists>t. fst (mcp_query_employees env q d) = Inr [text_content t] \<and>
             occurs_in (mcp_employee_entry env e) t"
proof -
  define ps where "ps =
    (if department e \<noteq> [] then [DepartmentEq (department e)] else []) @
    (if level e \<noteq> [] then [LevelEq (level e)] else []) @
    (if m \<noteq> 0 then [PerformanceGe m] else [])"
  have "fst (mcp_query_employees env q d) =
          Inr [text_content (mcp_found_text env (fst (select_filtered ps d)))]"
    using assms(2,3,4) by (simp add: mcp_query_employees_def Let_def split_def ps_def)
  moreover have "e \<in> set (fst (select_filtered ps d))"
    using assms(1,5) by (simp add: select_filtered_def ps_def)
  ultimately show ?thesis
    using mcp_found_text_lists by blast
qed

lemma mcp_add_inserts:
  assumes "arg_name a = Some n" "arg_department a = Some dep" "arg_level a = Some l"
    and "arg_performance_score a = Some s" "arg_quarterly_rating a = Some r"
    and "arg_bonus a = Some b" "arg_hire_date a = Some h"
  shows "mcp_add_employee env a d =
           (Inr [text_content (mcp_added_text env (Some n) (next_rowid d))],
            exec InsertEmployee
              (d\<lparr>rows := rows d @
                    [\<lparr>emp_id = next_rowid d, name = n, department = dep, level = l,
                      performance_score = s, quarterly_rating = r, bonus = b,
                      hire_date = numeric_affinity h,
                      manager_id = (case arg_manager_id a of
                                      Some m \<Rightarrow> if m \<noteq> 0 then Some m else None
                                    | None \<Rightarrow> None)\<rparr>],
                 seq := next_rowid d\<rparr>))"
  using assms by (simp add: mcp_add_employee_def insert_employee_def)

subsection \<open>C1: arguments that do not match the schema\<close>

text \<open>
  C1 says that on either server a call whose arguments do not match the tool's schema is
  rejected before the handler runs. The Server program of \<^verbatim>\<open>src/screenshoot.ts\<close> checks
  only that the arguments are there: a \<^verbatim>\<open>performance_score\<close> of 9 reaches the handler of
  \<^verbatim>\<open>add_employee\<close>, which inserts the row.
\<close>

theorem out_of_range_score_is_inserted:
  "add_employee_mismatch (newcomer\<lparr>arg_performance_score := Some 9\<rparr>) \<and>
   \<not> add_employee_schema (newcomer\<lparr>arg_performance_score := Some 9\<rparr>) \<and>
   fst (raw_call_tool example_env ''add_employee''
          (Some (newcomer\<lparr>arg_performance_score := Some 9\<rparr>)) initial_db) =
     Inr [text_content
            ''{u793E}{u54E1} Ada {u3092}{u6B63}{u5E38}{u306B}{u8FFD}{u52A0}{u3057}{u307E}{u3057}{u305F}{u3002}ID: 13''] \<and>
   rows (snd (raw_call_tool example_env ''add_employee''
          (Some (newcomer\<lparr>arg_performance_score := Some 9\<rparr>)) initial_db)) =
     rows initial_db @
     [\<lparr>emp_id = 13, name = ''Ada'', department = ''QA'', level = ''P4'',
       performance_score = 9, quarterly_rating = ''A'', bonus = 1000,
       hire_date = DText ''2024-04-01'', manager_id = None\<rparr>]"
  by (simp add: add_employee_mismatch_def add_employee_schema_def newcomer_def no_args_def
      raw_call_tool_def raw_add_employee_def insert_employee_def next_rowid_def
      raw_added_text_def example_env_def decimal_def dec_digits.simps
      numeric_affinity_def numeric_literal_def is_space_def is_digit_def digits_val_def
      Let_def initial_db_eval)

text \<open>
  C1 as amended: on the servers built on McpServer (the screenshot server and the
  employee server of \<^verbatim>\<open>src/employee.ts\<close>) a call whose arguments the tool's zod schema
  does not accept is rejected before the handler runs, and the state is unchanged; this
  covers the mismatches of \<^verbatim>\<open>add_employee\<close> that the claim lists. The Server program of
  \<^verbatim>\<open>src/screenshoot.ts\<close> rejects a call before its handler only when the call carries
  no arguments object; on any arguments object it runs the handler.
\<close>

theorem invalid_arguments_rejected:
  assumes "map_of (employee_tools env) nm = Some (schema, handler)"
    and "\<not> schema a"
    and "\<not> get_screenshot_schema b"
    and "add_employee_mismatch c"
  shows "mcp_call_tool env nm (Some a) d = (Inl (McpError ''Invalid arguments''), d) \<and>
         screenshot_call_tool pp ''get_screenshot'' (Some b) tr =
           (Inl (McpError ''Invalid arguments''), tr) \<and>
         mcp_call_tool env ''add_employee'' (Some c) d =
           (Inl (McpError ''Invalid arguments''), d) \<and>
         raw_call_tool env nm' None d = (Inl (Error ''Missing arguments''), d) \<and>
         raw_call_tool env ''add_employee'' (Some c) d = raw_add_employee env c d"
proof -
  have "\<not> add_employee_schema c"
    using assms(4)
    by (auto simp: add_employee_mismatch_def add_employee_schema_def ratings_def
        split: option.splits)
  then have "mcp_call_tool env ''add_employee'' (Some c) d =
               (Inl (McpError ''Invalid arguments''), d)"
    by (simp add: mcp_call_tool_def mcp_server_call_def employee_tools_def)
  moreover have "mcp_call_tool env nm (Some a) d = (Inl (McpError ''Invalid arguments''), d)"
    using assms(1,2) by (simp add: mcp_call_tool_def mcp_server_call_def)
  moreover have "screenshot_call_tool pp ''get_screenshot'' (Some b) tr =
                   (Inl (McpError ''Invalid arguments''), tr)"
    using assms(3) by (simp add: screenshot_call_tool_def mcp_server_call_def screenshot_tools_def)
  ultimately show ?thesis
    by (simp add: raw_call_tool_def)
qed

text \<open>
  The call of the counterexample, and a screenshot call without a \<^verbatim>\<open>url\<close>, on the
  McpServer programs.
\<close>

theorem invalid_arguments_rejected_witness:
  "mcp_call_tool example_env ''add_employee''
      (Some (newcomer\<lparr>arg_performance_score := Some 9\<rparr>)) initial_db =
     (Inl (McpError ''Invalid arguments''), initial_db) \<and>
   screenshot_call_tool
       \<lparr>launch = Inr (), newPage = Inr (), goto = (\<lambda>u. Inr ()),
        screenshot = (\<lambda>u. Inr [])\<rparr>
       ''get_screenshot'' (Some no_args) [] =
     (Inl (McpError ''Invalid arguments''), [])"
  using invalid_arguments_rejected [of example_env "''add_employee''" add_employee_schema
      "mcp_add_employee example_env" "newcomer\<lparr>arg_performance_score := Some 9\<rparr>" no_args
      "newcomer\<lparr>arg_performance_score := Some 9\<rparr>" initial_db
      "\<lparr>launch = Inr (), newPage = Inr (), goto = (\<lambda>u. Inr ()),
        screenshot = (\<lambda>u. Inr [])\<rparr>" "[]"]
  by (simp add: employee_tools_def add_employee_schema_def add_employee_mismatch_def
      get_screenshot_schema_def newcomer_def no_args_def)

subsection \<open>C2: how many statements a call executes\<close>

text \<open>
  C2 says that a call to any of the six tools executes at most one statement. It does not
  hold: on the sample table \<^verbatim>\<open>get_team_hierarchy\<close> without a manager executes three, the
  top managers and then the team of each of the two.
\<close>

theorem hierarchy_runs_three_statements:
  "statements_of initial_db
     (snd (mcp_call_tool example_env ''get_team_hierarchy'' (Some no_args) initial_db)) =
   [SelectTopManagers, SelectTeam 2, SelectTeam 1]"
  by (simp add: mcp_call_tool_def mcp_server_call_def employee_tools_def
      get_team_hierarchy_schema_def mcp_get_team_hierarchy_db no_args_def
      top_managers_initial)
     (simp add: initial_db_eval)

text \<open>
  C2 as amended: \<^verbatim>\<open>query_employees\<close>, \<^verbatim>\<open>add_employee\<close>, \<^verbatim>\<open>department_stats\<close> and
  \<^verbatim>\<open>promotion_candidates\<close> execute exactly one statement in every call.
  \<^verbatim>\<open>update_performance\<close> executes none when no field to update is given, one (the
  UPDATE) when the id matches no row, and two (the UPDATE, then the SELECT of the name)
  otherwise. \<^verbatim>\<open>get_team_hierarchy\<close> executes two when \<^verbatim>\<open>manager_id\<close> is given and not
  zero, and otherwise one and one more for every employee without a manager. This holds
  in both programs.
\<close>

theorem statements_per_call:
  "length (statements_of d (snd (raw_query_employees env a d))) = 1 \<and>
   length (statements_of d (snd (raw_add_employee env a d))) = 1 \<and>
   length (statements_of d (snd (raw_department_stats env a d))) = 1 \<and>
   length (statements_of d (snd (raw_promotion_candidates env a d))) = 1 \<and>
   length (statements_of d (snd (raw_update_performance env a d))) =
     (if arg_performance_score a = None \<and>
         (arg_quarterly_rating a = None \<or> arg_quarterly_rating a = Some []) \<and>
         arg_bonus a = None
      then 0
      else if filter (id_is (arg_employee_id a)) (rows d) = [] then 1
      else 2) \<and>
   length (statements_of d (snd (raw_get_team_hierarchy env a d))) =
     (if (case arg_manager_id a of Some m \<Rightarrow> m \<noteq> 0 | None \<Rightarrow> False) then 2
      else 1 + length (filter (\<lambda>e. manager_id e = None) (rows d))) \<and>
   length (statements_of d (snd (mcp_query_employees env a d))) = 1 \<and>
   length (statements_of d (snd (mcp_add_employee env a d))) = 1 \<and>
   length (statements_of d (snd (mcp_department_stats env a d))) = 1 \<and>
   length (statements_of d (snd (mcp_promotion_candidates env a d))) = 1 \<and>
   length (statements_of d (snd (mcp_update_performance env a d))) =
     (if arg_performance_score a = None \<and>
         (arg_quarterly_rating a = None \<or> arg_quarterly_rating a = Some []) \<and>
         arg_bonus a = None
      then 0
      else if filter (id_is (arg_employee_id a)) (rows d) = [] then 1
      else 2) \<and>
   length (statements_of d (snd (mcp_get_team_hierarchy env a d))) =
     (if (case arg_manager_id a of Some m \<Rightarrow> m \<noteq> 0 | None \<Rightarrow> False) then 2
      else 1 + length (filter (\<lambda>e. manager_id e = None) (rows d)))"
proof -
  have top: "length (fst (select_top_managers d)) =
               length (filter (\<lambda>e. manager_id e = None) (rows d))"
    by (simp add: select_top_managers_def)
  have rh: "length (statements_of d (snd (raw_get_team_hierarchy env a d))) =
     (if (case arg_manager_id a of Some m \<Rightarrow> m \<noteq> 0 | None \<Rightarrow> False) then 2
      else 1 + length (filter (\<lambda>e. manager_id e = None) (rows d)))"
    by (simp add: raw_get_team_hierarchy_db top)
  have mh: "length (statements_of d (snd (mcp_get_team_hierarchy env a d))) =
     (if (case arg_manager_id a of Some m \<Rightarrow> m \<noteq> 0 | None \<Rightarrow> False) then 2
      else 1 + length (filter (\<lambda>e. manager_id e = None) (rows d)))"
    by (simp add: mcp_get_team_hierarchy_db top)
  show ?thesis
    using rh mh
    by (simp only: raw_query_employees_db raw_add_employee_db raw_department_stats_db
        raw_promotion_candidates_db raw_update_performance_db
        mcp_query_employees_db mcp_add_employee_db mcp_department_stats_db
        mcp_promotion_candidates_db mcp_update_performance_db list.size simp_thms)
qed

text \<open>On the sample table, an update of employee 3 executes two statements.\<close>

theorem statements_per_call_witness:
  "length (statements_of initial_db
     (snd (mcp_update_performance example_env
        (no_args\<lparr>arg_employee_id := Some 3, arg_bonus := Some 40000\<rparr>) initial_db))) = 2"
  using statements_per_call [of initial_db example_env
      "no_args\<lparr>arg_employee_id := Some 3, arg_bonus := Some 40000\<rparr>"]
  by (simp add: no_args_def initial_db_eval id_is_def)

subsection \<open>C3: the payloads of a result\<close>

text \<open>
  C3: whenever a call returns a result, on the employee server in either program and on
  the screenshot server, every item of its content list is a text payload (\<^verbatim>\<open>type\<close>
  \<^verbatim>\<open>text\<close> and a \<^verbatim>\<open>text\<close> field) or an image payload (\<^verbatim>\<open>type\<close> \<^verbatim>\<open>image\<close>, \<^verbatim>\<open>data\<close> in
  base64 and a \<^verbatim>\<open>mimeType\<close>). \<open>payloads_ok\<close> says so of a result and nothing of an error.
\<close>

theorem results_are_text_or_image:
  "payloads_ok (fst (raw_call_tool env nm ao d)) \<and>
   payloads_ok (fst (mcp_call_tool env nm ao d)) \<and>
   payloads_ok (fst (screenshot_call_tool pp nm' ao' tr))"
proof -
  have "payloads_ok (fst (raw_call_tool env nm ao d))"
    by (simp add: raw_call_tool_def raw_payloads split: option.splits)
  moreover have "payloads_ok (fst (mcp_call_tool env nm ao d))"
    by (simp add: mcp_call_tool_def mcp_server_call_def employee_tools_def mcp_payloads
        split: option.splits)
  moreover have "payloads_ok (fst (screenshot_call_tool pp nm' ao' tr))"
    by (simp add: screenshot_call_tool_def mcp_server_call_def screenshot_tools_def
        get_screenshot_payloads split: option.splits)
  ultimately show ?thesis by simp
qed

text \<open>
  A search on the sample table returns one text item, and a screenshot of four bytes one
  image item.
\<close>

theorem results_are_text_or_image_witness:
  "(\<exists>t. fst (mcp_call_tool example_env ''query_employees'' (Some no_args) initial_db) =
          Inr [[(''type'', ''text''), (''text'', t)]]) \<and>
   fst (screenshot_call_tool
          \<lparr>launch = Inr (), newPage = Inr (), goto = (\<lambda>u. Inr ()),
           screenshot = (\<lambda>u. Inr [0x89, 0x50, 0x4E, 0x47])\<rparr>
          ''get_screenshot'' (Some (no_args\<lparr>arg_url := Some ''https://example.com''\<rparr>)) []) =
     Inr [[(''type'', ''image''), (''data'', ''iVBORw==''), (''mimeType'', ''image/png'')]] \<and>
   payloads_ok (Inr [[(''type'', ''image''), (''data'', ''iVBORw==''), (''mimeType'', ''image/png'')]])"
  using results_are_text_or_image [of example_env "''query_employees''" "Some no_args"
      initial_db
      "\<lparr>launch = Inr (), newPage = Inr (), goto = (\<lambda>u. Inr ()),
        screenshot = (\<lambda>u. Inr [0x89, 0x50, 0x4E, 0x47])\<rparr>"
      "''get_screenshot''" "Some (no_args\<lparr>arg_url := Some ''https://example.com''\<rparr>)" "[]"]
  by (simp add: mcp_call_tool_def mcp_server_call_def employee_tools_def
      query_employees_schema_def mcp_query_employees_def Let_def split_def text_content_def
      screenshot_call_tool_def screenshot_tools_def get_screenshot_schema_def
      get_screenshot_def image_content_def no_args_def b64_def base64_alphabet_def)

subsection \<open>C4: an added employee is found again\<close>

text \<open>
  C4 says that after every \<^verbatim>\<open>add_employee\<close> call that the schema accepts, a search with
  the department, the level and a minimum not above the score of the new employee lists
  the employee with exactly the values that were inserted. The schema accepts every string
  as \<^verbatim>\<open>hire_date\<close>, and the column, declared \<^verbatim>\<open>DATE\<close>, stores a numeric literal as a
  number: the hire date \<^verbatim>\<open>007\<close> is stored as 7 and listed as \<^verbatim>\<open>7\<close>.
\<close>

theorem numeric_hire_date_is_rewritten:
  "add_employee_schema (newcomer\<lparr>arg_hire_date := Some ''007''\<rparr>) \<and>
   fst (mcp_call_tool example_env ''add_employee''
          (Some (newcomer\<lparr>arg_hire_date := Some ''007''\<rparr>)) empty_db) =
     Inr [text_content
            ''{u793E}{u54E1} Ada {u3092}{u6B63}{u5E38}{u306B}{u8FFD}{u52A0}{u3057}{u307E}{u3057}{u305F}{u3002}ID: 1''] \<and>
   fst (mcp_call_tool example_env ''query_employees''
          (Some (no_args\<lparr>arg_department := Some ''QA'', arg_level := Some ''P4'',
                   arg_min_performance := Some 4.5\<rparr>))
          (snd (mcp_call_tool example_env ''add_employee''
                  (Some (newcomer\<lparr>arg_hire_date := Some ''007''\<rparr>)) empty_db))) =
     Inr [text_content
           (''1{u4EBA}{u306E}{u793E}{u54E1}{u304C}{u691C}{u7D22}{u3055}{u308C}{u307E}{u3057}{u305F}:\<newline>\<newline>'' @
            ''ID: 1\<newline>{u6C0F}{u540D}: Ada\<newline>{u90E8}{u7F72}: QA\<newline>{u7B49}{u7D1A}: P4\<newline>'' @
            ''{u30D1}{u30D5}{u30A9}{u30FC}{u30DE}{u30F3}{u30B9}: 4.5\<newline>{u8A55}{u4FA1}: A\<newline>'' @
            ''{u30DC}{u30FC}{u30CA}{u30B9}: {u00A5}1000\<newline>{u5165}{u793E}{u65E5}: 7\<newline>'')] \<and>
   \<not> occurs_in
        (mcp_employee_entry example_env
           \<lparr>emp_id = 1, name = ''Ada'', department = ''QA'', level = ''P4'',
            performance_score = 4.5, quarterly_rating = ''A'', bonus = 1000,
            hire_date = DText ''007'', manager_id = None\<rparr>)
        (''1{u4EBA}{u306E}{u793E}{u54E1}{u304C}{u691C}{u7D22}{u3055}{u308C}{u307E}{u3057}{u305F}:\<newline>\<newline>'' @
         ''ID: 1\<newline>{u6C0F}{u540D}: Ada\<newline>{u90E8}{u7F72}: QA\<newline>{u7B49}{u7D1A}: P4\<newline>'' @
         ''{u30D1}{u30D5}{u30A9}{u30FC}{u30DE}{u30F3}{u30B9}: 4.5\<newline>{u8A55}{u4FA1}: A\<newline>'' @
         ''{u30DC}{u30FC}{u30CA}{u30B9}: {u00A5}1000\<newline>{u5165}{u793E}{u65E5}: 7\<newline>'')"
proof -
  have valid: "add_employee_schema (newcomer\<lparr>arg_hire_date := Some ''007''\<rparr>)"
    by (simp add: add_employee_schema_def newcomer_def no_args_def ratings_def)
  have stored: "numeric_affinity ''007'' = DNum 7"
    by (simp add: numeric_affinity_def numeric_literal_def is_space_def is_digit_def
        digits_val_def Let_def)
  have added: "mcp_add_employee example_env (newcomer\<lparr>arg_hire_date := Some ''007''\<rparr>) empty_db =
      (Inr [text_content (mcp_added_text example_env (Some ''Ada'') 1)],
       \<lparr>rows = [\<lparr>emp_id = 1, name = ''Ada'', department = ''QA'', level = ''P4'',
                  performance_score = 4.5, quarterly_rating = ''A'', bonus = 1000,
                  hire_date = DNum 7, manager_id = None\<rparr>],
        seq = 1, executed = [InsertEmployee]\<rparr>)"
    by (simp add: mcp_add_employee_def insert_employee_def next_rowid_def newcomer_def
        no_args_def empty_db_def exec_def stored)
  have reply: "mcp_added_text example_env (Some ''Ada'') 1 =
      ''{u793E}{u54E1} Ada {u3092}{u6B63}{u5E38}{u306B}{u8FFD}{u52A0}{u3057}{u307E}{u3057}{u305F}{u3002}ID: 1''"
    by (simp add: mcp_added_text_def example_env_def decimal_examples)
  have entry: "mcp_employee_entry example_env
           \<lparr>emp_id = 1, name = ''Ada'', department = ''QA'', level = ''P4'',
            performance_score = 9 / 2, quarterly_rating = ''A'', bonus = 1000,
            hire_date = v, manager_id = None\<rparr> =
         ''ID: 1\<newline>{u6C0F}{u540D}: Ada\<newline>{u90E8}{u7F72}: QA\<newline>{u7B49}{u7D1A}: P4\<newline>'' @
         ''{u30D1}{u30D5}{u30A9}{u30FC}{u30DE}{u30F3}{u30B9}: 4.5\<newline>{u8A55}{u4FA1}: A\<newline>'' @
         ''{u30DC}{u30FC}{u30CA}{u30B9}: {u00A5}1000\<newline>{u5165}{u793E}{u65E5}: '' @
         tpl_date example_env v @ ''\<newline>''" for v
    by (simp add: mcp_employee_entry_def example_env_def decimal_examples decimal_half)
  have found: "fst (mcp_query_employees example_env
          (no_args\<lparr>arg_department := Some ''QA'', arg_level := Some ''P4'',
                   arg_min_performance := Some 4.5\<rparr>)
          \<lparr>rows = [\<lparr>emp_id = 1, name = ''Ada'', department = ''QA'', level = ''P4'',
                  performance_score = 4.5, quarterly_rating = ''A'', bonus = 1000,
                  hire_date = DNum 7, manager_id = None\<rparr>],
        seq = 1, executed = [InsertEmployee]\<rparr>) =
     Inr [text_content
           (''1{u4EBA}{u306E}{u793E}{u54E1}{u304C}{u691C}{u7D22}{u3055}{u308C}{u307E}{u3057}{u305F}:\<newline>\<newline>'' @
            ''ID: 1\<newline>{u6C0F}{u540D}: Ada\<newline>{u90E8}{u7F72}: QA\<newline>{u7B49}{u7D1A}: P4\<newline>'' @
            ''{u30D1}{u30D5}{u30A9}{u30FC}{u30DE}{u30F3}{u30B9}: 4.5\<newline>{u8A55}{u4FA1}: A\<newline>'' @
            ''{u30DC}{u30FC}{u30CA}{u30B9}: {u00A5}1000\<newline>{u5165}{u793E}{u65E5}: 7\<newline>'')]"
    by (simp add: mcp_query_employees_def no_args_def Let_def select_filtered_def order_by_def
        mcp_found_text_def entry tpl_date_def)
       (simp add: example_env_def decimal_examples)
  have absent: "\<not> occurs_in
        (mcp_employee_entry example_env
           \<lparr>emp_id = 1, name = ''Ada'', department = ''QA'', level = ''P4'',
            performance_score = 4.5, quarterly_rating = ''A'', bonus = 1000,
            hire_date = DText ''007'', manager_id = None\<rparr>)
        (''1{u4EBA}{u306E}{u793E}{u54E1}{u304C}{u691C}{u7D22}{u3055}{u308C}{u307E}{u3057}{u305F}:\<newline>\<newline>'' @
         ''ID: 1\<newline>{u6C0F}{u540D}: Ada\<newline>{u90E8}{u7F72}: QA\<newline>{u7B49}{u7D1A}: P4\<newline>'' @
         ''{u30D1}{u30D5}{u30A9}{u30FC}{u30DE}{u30F3}{u30B9}: 4.5\<newline>{u8A55}{u4FA1}: A\<newline>'' @
         ''{u30DC}{u30FC}{u30CA}{u30B9}: {u00A5}1000\<newline>{u5165}{u793E}{u65E5}: 7\<newline>'')"
    by (simp add: entry tpl_date_def)
  have calls:
    "mcp_call_tool example_env ''add_employee'' (Some x) y =
       (if add_employee_schema x then mcp_add_employee example_env x y
        else (Inl (McpError ''Invalid arguments''), y))"
    "mcp_call_tool example_env ''query_employees'' (Some x) y =
       mcp_query_employees example_env x y" for x y
    by (simp_all add: mcp_call_tool_def mcp_server_call_def employee_tools_def
        query_employees_schema_def)
  have c1: "fst (mcp_call_tool example_env ''add_employee''
          (Some (newcomer\<lparr>arg_hire_date := Some ''007''\<rparr>)) empty_db) =
     Inr [text_content
            ''{u793E}{u54E1} Ada {u3092}{u6B63}{u5E38}{u306B}{u8FFD}{u52A0}{u3057}{u307E}{u3057}{u305F}{u3002}ID: 1'']"
    by (simp only: calls valid if_True added reply fst_conv)
  have c2: "fst (mcp_call_tool example_env ''query_employees''
          (Some (no_args\<lparr>arg_department := Some ''QA'', arg_level := Some ''P4'',
                   arg_min_performance := Some 4.5\<rparr>))
          (snd (mcp_call_tool example_env ''add_employee''
                  (Some (newcomer\<lparr>arg_hire_date := Some ''007''\<rparr>)) empty_db))) =
     Inr [text_content
           (''1{u4EBA}{u306E}{u793E}{u54E1}{u304C}{u691C}{u7D22}{u3055}{u308C}{u307E}{u3057}{u305F}:\<newline>\<newline>'' @
            ''ID: 1\<newline>{u6C0F}{u540D}: Ada\<newline>{u90E8}{u7F72}: QA\<newline>{u7B49}{u7D1A}: P4\<newline>'' @
            ''{u30D1}{u30D5}{u30A9}{u30FC}{u30DE}{u30F3}{u30B9}: 4.5\<newline>{u8A55}{u4FA1}: A\<newline>'' @
            ''{u30DC}{u30FC}{u30CA}{u30B9}: {u00A5}1000\<newline>{u5165}{u793E}{u65E5}: 7\<newline>'')]"
    by (simp only: calls valid if_True added snd_conv found)
  show ?thesis
    by (intro conjI valid c1 c2 absent)
qed

text \<open>
  C4 as amended: for every table and every \<^verbatim>\<open>add_employee\<close> call that the schema accepts
  and whose \<^verbatim>\<open>hire_date\<close> is not a numeric literal (a date \<^verbatim>\<open>YYYY-MM-DD\<close> is not one), a
  following \<^verbatim>\<open>query_employees\<close> call with the department and the level of the new
  employee and a \<^verbatim>\<open>min_performance\<close> not above its score returns a listing in which the
  block of an employee occurs that has the id reported by \<^verbatim>\<open>add_employee\<close>, an id no row
  had before, and exactly the inserted name, department, level, score, rating, bonus and
  hire date. Both programs.
\<close>

theorem added_employee_is_listed:
  assumes "arg_name a = Some n"
    and "arg_department a = Some dep"
    and "arg_level a = Some l"
    and "arg_performance_score a = Some s"
    and "1 \<le> s"
    and "s \<le> 5"
    and "arg_quarterly_rating a = Some r"
    and "r \<in> set ratings"
    and "arg_bonus a = Some b"
    and "arg_hire_date a = Some h"
    and "numeric_literal h = None"
    and "arg_department q = Some dep"
    and "arg_level q = Some l"
    and "arg_min_performance q = Some m"
    and "m \<le> s"
  shows "(\<exists>i e t.
           fst (mcp_call_tool env ''add_employee'' (Some a) d) =
             Inr [text_content (mcp_added_text env (Some n) i)] \<and>
           i \<notin> set (map emp_id (rows d)) \<and>
           fst (mcp_call_tool env ''query_employees'' (Some q)
                  (snd (mcp_call_tool env ''add_employee'' (Some a) d))) =
             Inr [text_content t] \<and>
           occurs_in (mcp_employee_entry env e) t \<and>
           emp_id e = i \<and> name e = n \<and> department e = dep \<and> level e = l \<and>
           performance_score e = s \<and> quarterly_rating e = r \<and> bonus e = b \<and>
           hire_date e = DText h) \<and>
         (\<exists>i e t.
           fst (raw_call_tool env ''add_employee'' (Some a) d) =
             Inr [text_content (raw_added_text env (Some n) i)] \<and>
           i \<notin> set (map emp_id (rows d)) \<and>
           fst (raw_call_tool env ''query_employees'' (Some q)
                  (snd (raw_call_tool env ''add_employee'' (Some a) d))) =
             Inr [text_content t] \<and>
           occurs_in (raw_employee_entry env e) t \<and>
           emp_id e = i \<and> name e = n \<and> department e = dep \<and> level e = l \<and>
           performance_score e = s \<and> quarterly_rating e = r \<and> bonus e = b \<and>
           hire_date e = DText h)"
proof -
  have valid: "add_employee_schema a"
    using assms by (simp add: add_employee_schema_def)
  have mcp_call:
    "mcp_call_tool env ''add_employee'' (Some x) y =
       (if add_employee_schema x then mcp_add_employee env x y
        else (Inl (McpError ''Invalid arguments''), y))"
    "mcp_call_tool env ''query_employees'' (Some x) y = mcp_query_employees env x y" for x y
    by (simp_all add: mcp_call_tool_def mcp_server_call_def employee_tools_def
        query_employees_schema_def)
  have raw_call:
    "raw_call_tool env ''add_employee'' (Some x) y = raw_add_employee env x y"
    "raw_call_tool env ''query_employees'' (Some x) y = raw_query_employees env x y" for x y
    by (simp_all add: raw_call_tool_def)

  have mcp: "\<exists>i e t.
           fst (mcp_call_tool env ''add_employee'' (Some a) d) =
             Inr [text_content (mcp_added_text env (Some n) i)] \<and>
           i \<notin> set (map emp_id (rows d)) \<and>
           fst (mcp_call_tool env ''query_employees'' (Some q)
                  (snd (mcp_call_tool env ''add_employee'' (Some a) d))) =
             Inr [text_content t] \<and>
           occurs_in (mcp_employee_entry env e) t \<and>
           emp_id e = i \<and> name e = n \<and> department e = dep \<and> level e = l \<and>
           performance_score e = s \<and> quarterly_rating e = r \<and> bonus e = b \<and>
           hire_date e = DText h"
  proof -
    define mgr where "mgr = (case arg_manager_id a of
                               Some m \<Rightarrow> if m \<noteq> 0 then Some m else None
                             | None \<Rightarrow> None)"
    have add: "mcp_add_employee env a d =
           (Inr [text_content (mcp_added_text env (Some n) (next_rowid d))],
            exec InsertEmployee
              (d\<lparr>rows := rows d @
                    [\<lparr>emp_id = next_rowid d, name = n, department = dep, level = l,
                      performance_score = s, quarterly_rating = r, bonus = b,
                      hire_date = numeric_affinity h, manager_id = mgr\<rparr>],
                 seq := next_rowid d\<rparr>))"
      unfolding mgr_def by (rule mcp_add_inserts [OF assms(1,2,3,4,7,9,10)])
    define e where "e = \<lparr>emp_id = next_rowid d, name = n, department = dep, level = l,
                      performance_score = s, quarterly_rating = r, bonus = b,
                      hire_date = DText h, manager_id = mgr\<rparr>"
    define d1 where "d1 = snd (mcp_add_employee env a d)"
    have stored: "numeric_affinity h = DText h"
      using assms(11) by (simp add: numeric_affinity_def)
    have "e \<in> set (rows d1)"
      by (simp add: d1_def add e_def stored)
    moreover have "arg_department q = Some (department e)" "arg_level q = Some (level e)"
      "m \<le> performance_score e"
      using assms(12,13,15) by (simp_all add: e_def)
    ultimately obtain t where t: "fst (mcp_query_employees env q d1) = Inr [text_content t]"
      "occurs_in (mcp_employee_entry env e) t"
      using mcp_query_lists [of e d1 q m env] assms(14) by blast
    have "fst (mcp_call_tool env ''add_employee'' (Some a) d) =
            Inr [text_content (mcp_added_text env (Some n) (next_rowid d))]"
      using valid by (simp add: mcp_call add)
    moreover have "fst (mcp_call_tool env ''query_employees'' (Some q)
                     (snd (mcp_call_tool env ''add_employee'' (Some a) d))) =
                   Inr [text_content t]"
      using valid t(1) by (simp add: mcp_call d1_def)
    moreover have "emp_id e = next_rowid d \<and> name e = n \<and> department e = dep \<and>
                   level e = l \<and> performance_score e = s \<and> quarterly_rating e = r \<and>
                   bonus e = b \<and> hire_date e = DText h"
      by (simp add: e_def)
    ultimately show ?thesis
      using t(2) next_rowid_fresh [of d] by blast
  qed

  have raw: "\<exists>i e t.
           fst (raw_call_tool env ''add_employee'' (Some a) d) =
             Inr [text_content (raw_added_text env (Some n) i)] \<and>
           i \<notin> set (map emp_id (rows d)) \<and>
           fst (raw_call_tool env ''query_employees'' (Some q)
                  (snd (raw_call_tool env ''add_employee'' (Some a) d))) =
             Inr [text_content t] \<and>
           occurs_in (raw_employee_entry env e) t \<and>
           emp_id e = i \<and> name e = n \<and> department e = dep \<and> level e = l \<and>
           performance_score e = s \<and> quarterly_rating e = r \<and> bonus e = b \<and>
           hire_date e = DText h"
  proof -
    define mgr where "mgr = (case arg_manager_id a of
                               Some m \<Rightarrow> if m \<noteq> 0 then Some m else None
                             | None \<Rightarrow> None)"
    have add: "raw_add_employee env a d =
           (Inr [text_content (raw_added_text env (Some n) (next_rowid d))],
            exec InsertEmployee
              (d\<lparr>rows := rows d @
                    [\<lparr>emp_id = next_rowid d, name = n, department = dep, level = l,
                      performance_score = s, quarterly_rating = r, bonus = b,
                      hire_date = numeric_affinity h, manager_id = mgr\<rparr>],
                 seq := next_rowid d\<rparr>))"
      unfolding mgr_def by (rule raw_add_inserts [OF assms(1,2,3,4,7,9,10)])
    define e where "e = \<lparr>emp_id = next_rowid d, name = n, department = dep, level = l,
                      performance_score = s, quarterly_rating = r, bonus = b,
                      hire_date = DText h, manager_id = mgr\<rparr>"
    define d1 where "d1 = snd (raw_add_employee env a d)"
    have stored: "numeric_affinity h = DText h"
      using assms(11) by (simp add: numeric_affinity_def)
    have "e \<in> set (rows d1)"
      by (simp add: d1_def add e_def stored)
    moreover have "arg_department q = Some (department e)" "arg_level q = Some (level e)"
      "m \<le> performance_score e"
      using assms(12,13,15) by (simp_all add: e_def)
    ultimately obtain t where t: "fst (raw_query_employees env q d1) = Inr [text_content t]"
      "occurs_in (raw_employee_entry env e) t"
      using raw_query_lists [of e d1 q m env] assms(14) by blast
    have "fst (raw_call_tool env ''add_employee'' (Some a) d) =
            Inr [text_content (raw_added_text env (Some n) (next_rowid d))]"
      using valid by (simp add: raw_call add)
    moreover have "fst (raw_call_tool env ''query_employees'' (Some q)
                     (snd (raw_call_tool env ''add_employee'' (Some a) d))) =
                   Inr [text_content t]"
      using valid t(1) by (simp add: raw_call d1_def)
    moreover have "emp_id e = next_rowid d \<and> name e = n \<and> department e = dep \<and>
                   level e = l \<and> performance_score e = s \<and> quarterly_rating e = r \<and>
                   bonus e = b \<and> hire_date e = DText h"
      by (simp add: e_def)
    ultimately show ?thesis
      using t(2) next_rowid_fresh [of d] by blast
  qed

  from mcp raw show ?thesis by blast
qed

text \<open>
  On the sample table: Ada, hired on 2024-04-01, is added with the id 13 and found by
  the search for her department, her level and her score.
\<close>

theorem added_employee_is_listed_witness:
  "\<exists>t. fst (mcp_call_tool example_env ''add_employee'' (Some newcomer) initial_db) =
          Inr [text_content
                 ''{u793E}{u54E1} Ada {u3092}{u6B63}{u5E38}{u306B}{u8FFD}{u52A0}{u3057}{u307E}{u3057}{u305F}{u3002}ID: 13''] \<and>
        fst (mcp_call_tool example_env ''query_employees''
               (Some (no_args\<lparr>arg_department := Some ''QA'', arg_level := Some ''P4'',
                        arg_min_performance := Some 4.5\<rparr>))
               (snd (mcp_call_tool example_env ''add_employee'' (Some newcomer) initial_db))) =
          Inr [text_content t] \<and>
        occurs_in
          (''ID: 13\<newline>{u6C0F}{u540D}: Ada\<newline>{u90E8}{u7F72}: QA\<newline>{u7B49}{u7D1A}: P4\<newline>'' @
           ''{u30D1}{u30D5}{u30A9}{u30FC}{u30DE}{u30F3}{u30B9}: 4.5\<newline>{u8A55}{u4FA1}: A\<newline>'' @
           ''{u30DC}{u30FC}{u30CA}{u30B9}: {u00A5}1000\<newline>{u5165}{u793E}{u65E5}: 2024-04-01\<newline>'') t"
proof -
  have plain: "numeric_literal ''2024-04-01'' = None"
    by (simp add: numeric_literal_def is_space_def is_digit_def digits_val_def Let_def)
  have thirteen: "next_rowid initial_db = 13"
    by (simp add: next_rowid_def initial_db_eval)
  have added: "fst (mcp_call_tool example_env ''add_employee'' (Some newcomer) initial_db) =
                 Inr [text_content (mcp_added_text example_env (Some ''Ada'') 13)]"
    by (simp add: mcp_call_tool_def mcp_server_call_def employee_tools_def
        add_employee_schema_def ratings_def mcp_add_employee_def insert_employee_def
        thirteen newcomer_def no_args_def)
  from added_employee_is_listed
    [of newcomer "''Ada''" "''QA''" "''P4''" "4.5" "''A''" 1000 "''2024-04-01''"
        "no_args\<lparr>arg_department := Some ''QA'', arg_level := Some ''P4'',
                 arg_min_performance := Some 4.5\<rparr>" "4.5" example_env initial_db]
  obtain i e t where
    w: "fst (mcp_call_tool example_env ''add_employee'' (Some newcomer) initial_db) =
          Inr [text_content (mcp_added_text example_env (Some ''Ada'') i)]"
       "fst (mcp_call_tool example_env ''query_employees''
               (Some (no_args\<lparr>arg_department := Some ''QA'', arg_level := Some ''P4'',
                        arg_min_performance := Some 4.5\<rparr>))
               (snd (mcp_call_tool example_env ''add_employee'' (Some newcomer) initial_db))) =
          Inr [text_content t]"
       "occurs_in (mcp_employee_entry example_env e) t"
       "emp_id e = i" "name e = ''Ada''" "department e = ''QA''" "level e = ''P4''"
       "performance_score e = 4.5" "quarterly_rating e = ''A''" "bonus e = 1000"
       "hire_date e = DText ''2024-04-01''"
    by (auto simp: newcomer_def no_args_def ratings_def plain)
  from w(1) added have "mcp_added_text example_env (Some ''Ada'') i =
                        mcp_added_text example_env (Some ''Ada'') 13"
    by (simp add: text_content_def)
  then have "decimal (of_int i) = decimal 13"
    by (simp add: mcp_added_text_def example_env_def)
  have entry: "mcp_employee_entry example_env e =
           ''ID: '' @ decimal (of_int i) @
           ''\<newline>{u6C0F}{u540D}: Ada\<newline>{u90E8}{u7F72}: QA\<newline>{u7B49}{u7D1A}: P4\<newline>'' @
           ''{u30D1}{u30D5}{u30A9}{u30FC}{u30DE}{u30F3}{u30B9}: 4.5\<newline>{u8A55}{u4FA1}: A\<newline>'' @
           ''{u30DC}{u30FC}{u30CA}{u30B9}: {u00A5}1000\<newline>{u5165}{u793E}{u65E5}: 2024-04-01\<newline>''"
    by (simp add: mcp_employee_entry_def w example_env_def tpl_date_def decimal_examples
        decimal_half)
  have "decimal 13 = ''13''"
    by (simp add: decimal_examples)
  with \<open>decimal (of_int i) = decimal 13\<close> entry w(3)
  have "occurs_in
          (''ID: 13\<newline>{u6C0F}{u540D}: Ada\<newline>{u90E8}{u7F72}: QA\<newline>{u7B49}{u7D1A}: P4\<newline>'' @
           ''{u30D1}{u30D5}{u30A9}{u30FC}{u30DE}{u30F3}{u30B9}: 4.5\<newline>{u8A55}{u4FA1}: A\<newline>'' @
           ''{u30DC}{u30FC}{u30CA}{u30B9}: {u00A5}1000\<newline>{u5165}{u793E}{u65E5}: 2024-04-01\<newline>'') t"
    by simp
  moreover have "mcp_added_text example_env (Some ''Ada'') 13 =
      ''{u793E}{u54E1} Ada {u3092}{u6B63}{u5E38}{u306B}{u8FFD}{u52A0}{u3057}{u307E}{u3057}{u305F}{u3002}ID: 13''"
    by (simp add: mcp_added_text_def example_env_def decimal_examples)
  ultimately show ?thesis
    using added w(2) by auto
qed

subsection \<open>C5: the reporting tools only read\<close>

text \<open>
  C5: a call to \<^verbatim>\<open>query_employees\<close>, \<^verbatim>\<open>department_stats\<close>, \<^verbatim>\<open>promotion_candidates\<close> or
  \<^verbatim>\<open>get_team_hierarchy\<close> leaves every row of the employees table, and the counter of its
  ids, as they were before the call: for every table, every environment and every
  arguments object (also a missing one), in both programs.
\<close>

theorem reporting_tools_read_only:
  assumes "nm \<in> set [''query_employees'', ''department_stats'', ''promotion_candidates'',
                      ''get_team_hierarchy'']"
  shows "same_table d (snd (raw_call_tool env nm ao d)) \<and>
         same_table d (snd (mcp_call_tool env nm ao d))"
proof (cases ao)
  case None
  with assms show ?thesis
    by (auto simp: raw_call_tool_def mcp_call_tool_def mcp_server_call_def employee_tools_def
        same_table_def)
next
  case (Some a)
  have r: "same_table d (snd (raw_call_tool env nm (Some a) d))"
    using assms
    by (auto simp: raw_call_tool_def raw_query_employees_db raw_department_stats_db
        raw_promotion_candidates_db raw_get_team_hierarchy_db)
  have m: "same_table d (snd (mcp_call_tool env nm (Some a) d))"
    using assms
    by (auto simp: mcp_call_tool_def mcp_server_call_def employee_tools_def
        query_employees_schema_def department_stats_schema_def
        promotion_candidates_schema_def get_team_hierarchy_schema_def
        mcp_query_employees_db mcp_department_stats_db
        mcp_promotion_candidates_db mcp_get_team_hierarchy_db)
  from r m Some show ?thesis by simp
qed

text \<open>On the sample table, the hierarchy of all teams in both programs.\<close>

theorem reporting_tools_read_only_witness:
  "rows (snd (raw_call_tool example_env ''get_team_hierarchy'' (Some no_args) initial_db)) =
     rows initial_db \<and>
   seq (snd (raw_call_tool example_env ''get_team_hierarchy'' (Some no_args) initial_db)) = 12 \<and>
   rows (snd (mcp_call_tool example_env ''get_team_hierarchy'' (Some no_args) initial_db)) =
     rows initial_db \<and>
   seq (snd (mcp_call_tool example_env ''get_team_hierarchy'' (Some no_args) initial_db)) = 12"
  using reporting_tools_read_only [of "''get_team_hierarchy''" initial_db example_env
      "Some no_args"]
  by (simp add: same_table_def initial_db_eval)

subsection \<open>C6: the screenshot\<close>



subsection \<open>C7: a tool name that is not registered\<close>

text \<open>
  C7 says that every call with a name that is none of the six tools is answered with an
  error that identifies the unknown tool. In the Server program the guard on the
  arguments comes before the switch: a call that carries no arguments object is answered
  with \<^verbatim>\<open>Missing arguments\<close>, whatever its name.
\<close>

theorem unknown_tool_without_arguments:
  "raw_call_tool example_env ''delete_employee'' None initial_db =
     (Inl (Error ''Missing arguments''), initial_db) \<and>
   \<not> occurs_in ''delete_employee'' ''Missing arguments''"
  by (simp add: raw_call_tool_def)

text \<open>
  C7 as amended: for a name that is none of the six tools, the Server program throws
  the error that names the tool when the call carries an arguments object and
  \<^verbatim>\<open>Missing arguments\<close> when it carries none, and the McpServer program answers that the
  tool is not found; in each case no statement is executed and the table is unchanged
  (the database is returned as it was).
\<close>

theorem unknown_tool_is_refused:
  assumes "nm \<notin> set tool_names"
  shows "raw_call_tool env nm (Some a) d =
           (Inl (Error (''{u4E0D}{u660E}{u306A}{u30C4}{u30FC}{u30EB}: '' @ nm)), d) \<and>
         raw_call_tool env nm None d = (Inl (Error ''Missing arguments''), d) \<and>
         mcp_call_tool env nm ao d = (Inl (McpError (''Tool '' @ nm @ '' not found'')), d)"
  using assms
  by (simp add: tool_names_def raw_call_tool_def mcp_call_tool_def mcp_server_call_def
      employee_tools_def)

theorem unknown_tool_is_refused_witness:
  "raw_call_tool example_env ''delete_employee'' (Some no_args) initial_db =
     (Inl (Error ''{u4E0D}{u660E}{u306A}{u30C4}{u30FC}{u30EB}: delete_employee''), initial_db) \<and>
   mcp_call_tool example_env ''delete_employee'' (Some no_args) initial_db =
     (Inl (McpError ''Tool delete_employee not found''), initial_db)"
  using unknown_tool_is_refused [of "''delete_employee''" example_env no_args initial_db
      "Some no_args"]
  by (simp add: tool_names_def)

subsection \<open>C9: falsy filter values\<close>

text \<open>
  C9: on every table, \<^verbatim>\<open>query_employees\<close> with \<^verbatim>\<open>min_performance\<close> 0, with an empty
  \<^verbatim>\<open>department\<close> or with an empty \<^verbatim>\<open>level\<close> returns what the call without that argument
  returns, and \<^verbatim>\<open>get_team_hierarchy\<close> with \<^verbatim>\<open>manager_id\<close> 0 returns what the call
  without a manager returns; in both programs, results and databases are equal. With
  \<^verbatim>\<open>min_performance\<close> 0 as the only argument the search runs without any filter and lists
  every row of the table, whatever its score. With \<^verbatim>\<open>manager_id\<close> 0 the statements are
  those of the branch for all top managers: no manager is looked up.
\<close>

theorem falsy_filters_are_ignored:
  "raw_call_tool env ''query_employees'' (Some (a\<lparr>arg_min_performance := Some 0\<rparr>)) d =
     raw_call_tool env ''query_employees'' (Some (a\<lparr>arg_min_performance := None\<rparr>)) d \<and>
   raw_call_tool env ''query_employees'' (Some (a\<lparr>arg_department := Some []\<rparr>)) d =
     raw_call_tool env ''query_employees'' (Some (a\<lparr>arg_department := None\<rparr>)) d \<and>
   raw_call_tool env ''query_employees'' (Some (a\<lparr>arg_level := Some []\<rparr>)) d =
     raw_call_tool env ''query_employees'' (Some (a\<lparr>arg_level := None\<rparr>)) d \<and>
   raw_call_tool env ''get_team_hierarchy'' (Some (a\<lparr>arg_manager_id := Some 0\<rparr>)) d =
     raw_call_tool env ''get_team_hierarchy'' (Some (a\<lparr>arg_manager_id := None\<rparr>)) d \<and>
   mcp_call_tool env ''query_employees'' (Some (a\<lparr>arg_min_performance := Some 0\<rparr>)) d =
     mcp_call_tool env ''query_employees'' (Some (a\<lparr>arg_min_performance := None\<rparr>)) d \<and>
   mcp_call_tool env ''query_employees'' (Some (a\<lparr>arg_department := Some []\<rparr>)) d =
     mcp_call_tool env ''query_employees'' (Some (a\<lparr>arg_department := None\<rparr>)) d \<and>
   mcp_call_tool env ''query_employees'' (Some (a\<lparr>arg_level := Some []\<rparr>)) d =
     mcp_call_tool env ''query_employees'' (Some (a\<lparr>arg_level := None\<rparr>)) d \<and>
   mcp_call_tool env ''get_team_hierarchy'' (Some (a\<lparr>arg_manager_id := Some 0\<rparr>)) d =
     mcp_call_tool env ''get_team_hierarchy'' (Some (a\<lparr>arg_manager_id := None\<rparr>)) d \<and>
   raw_call_tool env ''query_employees'' (Some (no_args\<lparr>arg_min_performance := Some 0\<rparr>)) d =
     (Inr [text_content (raw_found_text env (order_by by_performance_desc (rows d)))],
      exec (SelectFiltered []) d) \<and>
   mcp_call_tool env ''query_employees'' (Some (no_args\<lparr>arg_min_performance := Some 0\<rparr>)) d =
     (Inr [text_content (mcp_found_text env (order_by by_performance_desc (rows d)))],
      exec (SelectFiltered []) d) \<and>
   set (order_by by_performance_desc (rows d)) = set (rows d) \<and>
   statements_of d
     (snd (raw_call_tool env ''get_team_hierarchy'' (Some (a\<lparr>arg_manager_id := Some 0\<rparr>)) d)) =
     SelectTopManagers #
     map (\<lambda>mgr. SelectTeam (of_int (emp_id mgr))) (fst (select_top_managers d)) \<and>
   statements_of d
     (snd (mcp_call_tool env ''get_team_hierarchy'' (Some (a\<lparr>arg_manager_id := Some 0\<rparr>)) d)) =
     SelectTopManagers #
     map (\<lambda>mgr. SelectTeam (of_int (emp_id mgr))) (fst (select_top_managers d))"
proof -
  have q: "raw_query_employees env (a\<lparr>arg_min_performance := Some 0\<rparr>) d =
             raw_query_employees env (a\<lparr>arg_min_performance := None\<rparr>) d"
          "raw_query_employees env (a\<lparr>arg_department := Some []\<rparr>) d =
             raw_query_employees env (a\<lparr>arg_department := None\<rparr>) d"
          "raw_query_employees env (a\<lparr>arg_level := Some []\<rparr>) d =
             raw_query_employees env (a\<lparr>arg_level := None\<rparr>) d"
          "mcp_query_employees env (a\<lparr>arg_min_performance := Some 0\<rparr>) d =
             mcp_query_employees env (a\<lparr>arg_min_performance := None\<rparr>) d"
          "mcp_query_employees env (a\<lparr>arg_department := Some []\<rparr>) d =
             mcp_query_employees env (a\<lparr>arg_department := None\<rparr>) d"
          "mcp_query_employees env (a\<lparr>arg_level := Some []\<rparr>) d =
             mcp_query_employees env (a\<lparr>arg_level := None\<rparr>) d"
    by (simp_all add: raw_query_employees_def mcp_query_employees_def)
  have h: "raw_get_team_hierarchy env (a\<lparr>arg_manager_id := Some 0\<rparr>) d =
             raw_get_team_hierarchy env (a\<lparr>arg_manager_id := None\<rparr>) d"
          "mcp_get_team_hierarchy env (a\<lparr>arg_manager_id := Some 0\<rparr>) d =
             mcp_get_team_hierarchy env (a\<lparr>arg_manager_id := None\<rparr>) d"
    by (simp_all add: raw_get_team_hierarchy_def mcp_get_team_hierarchy_def)
  have all: "raw_query_employees env (no_args\<lparr>arg_min_performance := Some 0\<rparr>) d =
               (Inr [text_content (raw_found_text env (order_by by_performance_desc (rows d)))],
                exec (SelectFiltered []) d)"
            "mcp_query_employees env (no_args\<lparr>arg_min_performance := Some 0\<rparr>) d =
               (Inr [text_content (mcp_found_text env (order_by by_performance_desc (rows d)))],
                exec (SelectFiltered []) d)"
    by (simp_all add: raw_query_employees_def mcp_query_employees_def no_args_def
        select_filtered_def)
  have s: "statements_of d (snd (raw_get_team_hierarchy env (a\<lparr>arg_manager_id := Some 0\<rparr>) d)) =
             SelectTopManagers #
             map (\<lambda>mgr. SelectTeam (of_int (emp_id mgr))) (fst (select_top_managers d))"
          "statements_of d (snd (mcp_get_team_hierarchy env (a\<lparr>arg_manager_id := Some 0\<rparr>) d)) =
             SelectTopManagers #
             map (\<lambda>mgr. SelectTeam (of_int (emp_id mgr))) (fst (select_top_managers d))"
    by (simp_all add: raw_get_team_hierarchy_db mcp_get_team_hierarchy_db)
  have o: "set (order_by by_performance_desc (rows d)) = set (rows d)"
    by simp
  have c: "raw_call_tool env ''query_employees'' (Some b) d = raw_query_employees env b d"
          "raw_call_tool env ''get_team_hierarchy'' (Some b) d = raw_get_team_hierarchy env b d"
          "mcp_call_tool env ''query_employees'' (Some b) d = mcp_query_employees env b d"
          "mcp_call_tool env ''get_team_hierarchy'' (Some b) d = mcp_get_team_hierarchy env b d"
    for b
    by (simp_all add: raw_call_tool_def mcp_call_tool_def mcp_server_call_def
        employee_tools_def query_employees_schema_def get_team_hierarchy_schema_def)
  show ?thesis
    unfolding c
    by (intro conjI q h all s o)
qed

text \<open>
  A table whose only employee has the score -1 (the Server program does not check the
  range): the search with \<^verbatim>\<open>min_performance\<close> 0 lists it.
\<close>

theorem falsy_filters_are_ignored_witness:
  "fst (raw_call_tool example_env ''query_employees''
         (Some (no_args\<lparr>arg_min_performance := Some 0\<rparr>))
         (snd (raw_call_tool example_env ''add_employee''
                 (Some (newcomer\<lparr>arg_performance_score := Some (- 1)\<rparr>)) empty_db))) =
   Inr [text_content
          (''1{u4EBA}{u306E}{u793E}{u54E1}{u304C}{u691C}{u7D22}{u3055}{u308C}{u307E}{u3057}{u305F}:\<newline>\<newline>'' @
           ''ID: 1\<newline>{u6C0F}{u540D}: Ada\<newline>{u90E8}{u7F72}: QA\<newline>{u7B49}{u7D1A}: P4\<newline>'' @
           ''{u30D1}{u30D5}{u30A9}{u30FC}{u30DE}{u30F3}{u30B9}: -1\<newline>{u8A55}{u4FA1}: A\<newline>'' @
           ''{u30DC}{u30FC}{u30CA}{u30B9}: {u00A5}1000\<newline>{u5165}{u793E}{u65E5}: 2024-04-01\<newline>'')]"
proof -
  have d1: "snd (raw_call_tool example_env ''add_employee''
                 (Some (newcomer\<lparr>arg_performance_score := Some (- 1)\<rparr>)) empty_db) =
            \<lparr>rows = [\<lparr>emp_id = 1, name = ''Ada'', department = ''QA'', level = ''P4'',
                       performance_score = - 1, quarterly_rating = ''A'', bonus = 1000,
                       hire_date = DText ''2024-04-01'', manager_id = None\<rparr>],
             seq = 1, executed = [InsertEmployee]\<rparr>"
    by (simp add: raw_call_tool_def raw_add_employee_def insert_employee_def next_rowid_def
        newcomer_def no_args_def empty_db_def exec_def numeric_affinity_def
        numeric_literal_def is_space_def is_digit_def digits_val_def Let_def)
  have k: "raw_call_tool example_env ''query_employees''
          (Some (no_args\<lparr>arg_min_performance := Some 0\<rparr>))
          (snd (raw_call_tool example_env ''add_employee''
                 (Some (newcomer\<lparr>arg_performance_score := Some (- 1)\<rparr>)) empty_db)) =
        (Inr [text_content (raw_found_text example_env (order_by by_performance_desc (rows
           (snd (raw_call_tool example_env ''add_employee''
                 (Some (newcomer\<lparr>arg_performance_score := Some (- 1)\<rparr>)) empty_db)))))],
         exec (SelectFiltered [])
           (snd (raw_call_tool example_env ''add_employee''
                 (Some (newcomer\<lparr>arg_performance_score := Some (- 1)\<rparr>)) empty_db)))"
    using falsy_filters_are_ignored [of example_env no_args
        "snd (raw_call_tool example_env ''add_employee''
                 (Some (newcomer\<lparr>arg_performance_score := Some (- 1)\<rparr>)) empty_db)"]
    by (elim conjE)
  have listed: "order_by by_performance_desc (rows
           (snd (raw_call_tool example_env ''add_employee''
                 (Some (newcomer\<lparr>arg_performance_score := Some (- 1)\<rparr>)) empty_db))) =
          [\<lparr>emp_id = 1, name = ''Ada'', department = ''QA'', level = ''P4'',
            performance_score = - 1, quarterly_rating = ''A'', bonus = 1000,
            hire_date = DText ''2024-04-01'', manager_id = None\<rparr>]"
    by (simp add: d1 order_by_def)
  have rendered: "raw_found_text example_env
          [\<lparr>emp_id = 1, name = ''Ada'', department = ''QA'', level = ''P4'',
            performance_score = - 1, quarterly_rating = ''A'', bonus = 1000,
            hire_date = DText ''2024-04-01'', manager_id = None\<rparr>] =
          ''1{u4EBA}{u306E}{u793E}{u54E1}{u304C}{u691C}{u7D22}{u3055}{u308C}{u307E}{u3057}{u305F}:\<newline>\<newline>'' @
           ''ID: 1\<newline>{u6C0F}{u540D}: Ada\<newline>{u90E8}{u7F72}: QA\<newline>{u7B49}{u7D1A}: P4\<newline>'' @
           ''{u30D1}{u30D5}{u30A9}{u30FC}{u30DE}{u30F3}{u30B9}: -1\<newline>{u8A55}{u4FA1}: A\<newline>'' @
           ''{u30DC}{u30FC}{u30CA}{u30B9}: {u00A5}1000\<newline>{u5165}{u793E}{u65E5}: 2024-04-01\<newline>''"
    by (simp add: raw_found_text_def raw_employee_entry_def example_env_def
        decimal_def dec_digits.simps tpl_date_def)
  show ?thesis
    by (simp only: k listed rendered fst_conv)
qed

subsection \<open>C10: an update that fails\<close>



end
